theory Spec2Isabelle
  imports Complex_Main
begin

section \<open>The thermal simulator of \<^verbatim>\<open>src/engine/thermal_sim/thermal_simulator.py\<close>\<close>

text \<open>
  The class \<^verbatim>\<open>ThermalSimulator\<close> is embedded with explicit state passing. Python floats
  and the elements of the numpy arrays are modelled as the real numbers (rounding, infinities
  and NaN are outside the model); Python integers are \<^typ>\<open>int\<close>. Every exception the
  methods can raise is a value, returned together with the state of the object at the moment
  it is raised.
\<close>

subsection \<open>Errors\<close>

datatype error =
    ValueError string
  | IndexError
  | ZeroDivisionError
  | TypeError

subsection \<open>Three-dimensional numpy arrays\<close>

text \<open>
  An \<^verbatim>\<open>ndarray\<close> of three axes is its shape and its elements by index. Only the elements at
  indices inside the shape are meaningful; every access the model makes is either checked
  against the shape or made at an index that the enclosing loop takes from the shape.
\<close>

type_synonym index = "int \<times> int \<times> int"

record ndarray =
  shape :: "int \<times> int \<times> int"
  data :: "index \<Rightarrow> real"

definition np_full :: "int \<times> int \<times> int \<Rightarrow> real \<Rightarrow> ndarray" where
  \<comment> \<open>\<^verbatim>\<open>np.ones(shape) * v\<close> and, at \<open>v = 0\<close>, \<^verbatim>\<open>np.zeros(shape)\<close>\<close>
  "np_full sh v = \<lparr>shape = sh, data = (\<lambda>_. v)\<rparr>"

definition in_bounds :: "ndarray \<Rightarrow> index \<Rightarrow> bool" where
  "in_bounds a idx =
     (case shape a of (nx, ny, nz) \<Rightarrow>
      case idx of (i, j, k) \<Rightarrow>
        0 \<le> i \<and> i < nx \<and> 0 \<le> j \<and> j < ny \<and> 0 \<le> k \<and> k < nz)"

definition norm_index :: "int \<Rightarrow> int \<Rightarrow> int option" where
  \<comment> \<open>numpy's index on one axis of length \<open>n\<close>: a negative index counts from the end\<close>
  "norm_index n i =
     (if 0 \<le> i \<and> i < n then Some i
      else if - n \<le> i \<and> i < 0 then Some (i + n)
      else None)"

definition np_set :: "ndarray \<Rightarrow> index \<Rightarrow> real \<Rightarrow> error + ndarray" where
  \<comment> \<open>\<^verbatim>\<open>a[i, j, k] = v\<close>\<close>
  "np_set a idx v =
     (case shape a of (nx, ny, nz) \<Rightarrow>
      case idx of (i, j, k) \<Rightarrow>
      case norm_index nx i of None \<Rightarrow> Inl IndexError | Some i' \<Rightarrow>
      case norm_index ny j of None \<Rightarrow> Inl IndexError | Some j' \<Rightarrow>
      case norm_index nz k of None \<Rightarrow> Inl IndexError | Some k' \<Rightarrow>
        Inr (a\<lparr>data := (data a)((i', j', k') := v)\<rparr>))"

definition np_add :: "ndarray \<Rightarrow> index \<Rightarrow> real \<Rightarrow> ndarray" where
  \<comment> \<open>\<^verbatim>\<open>a[i, j, k] += v\<close> at an index already known to be in bounds\<close>
  "np_add a idx v = a\<lparr>data := (data a)(idx := data a idx + v)\<rparr>"

definition indices :: "int \<times> int \<times> int \<Rightarrow> index list" where
  \<comment> \<open>all indices of an array of the given shape, in row-major order\<close>
  "indices sh =
     (case sh of (nx, ny, nz) \<Rightarrow>
        List.product [0..nx - 1] (List.product [0..ny - 1] [0..nz - 1]))"

definition elements :: "ndarray \<Rightarrow> real list" where
  "elements a = map (data a) (indices (shape a))"

definition zero_size :: string where
  "zero_size = ''zero-size array to reduction operation which has no identity''"

definition np_max :: "ndarray \<Rightarrow> error + real" where
  "np_max a = (case elements a of [] \<Rightarrow> Inl (ValueError zero_size)
               | x # xs \<Rightarrow> Inr (fold max xs x))"

definition np_min :: "ndarray \<Rightarrow> error + real" where
  "np_min a = (case elements a of [] \<Rightarrow> Inl (ValueError zero_size)
               | x # xs \<Rightarrow> Inr (fold min xs x))"

definition material_cells :: "ndarray \<Rightarrow> index list" where
  \<comment> \<open>the indices selected by the mask \<^verbatim>\<open>grid > 0\<close>\<close>
  "material_cells g = filter (\<lambda>c. data g c > 0) (indices (shape g))"

definition np_any_material :: "ndarray \<Rightarrow> bool" where
  \<comment> \<open>\<^verbatim>\<open>np.any(self.grid > 0)\<close>\<close>
  "np_any_material g = (material_cells g \<noteq> [])"

definition mean :: "real list \<Rightarrow> real" where
  "mean xs = sum_list xs / real (length xs)"

definition masked_mean :: "ndarray \<Rightarrow> ndarray \<Rightarrow> error + real" where
  \<comment> \<open>\<^verbatim>\<open>np.mean(self.temperature[self.grid > 0])\<close>, evaluated only when the mask selects a
      cell; a boolean mask of another shape is an IndexError\<close>
  "masked_mean T g =
     (if shape T = shape g then Inr (mean (map (data T) (material_cells g)))
      else Inl IndexError)"

subsection \<open>Configuration\<close>

text \<open>
  The configuration is a dictionary read with \<^verbatim>\<open>config.get(key, default)\<close>: a key that is
  absent is \<open>None\<close> here, and each reader below supplies the default of the source.
\<close>

record material_props =
  thermal_conductivity :: "real option"
  specific_heat :: "real option"
  density :: "real option"

record config =
  time_step :: "real option"
  material :: "material_props option"
  ambient_temperature :: "real option"
  convection_coefficient :: "real option"
  extrusion_temperature :: "real option"
  cooling_rate_threshold :: "real option"
  max_temp_threshold :: "real option"

definition get_or :: "'a option \<Rightarrow> 'a \<Rightarrow> 'a" where
  "get_or v d = (case v of None \<Rightarrow> d | Some x \<Rightarrow> x)"

definition empty_material :: material_props where
  "empty_material = \<lparr>thermal_conductivity = None, specific_heat = None, density = None\<rparr>"

definition cfg_time_step :: "config \<Rightarrow> real" where
  "cfg_time_step c = get_or (time_step c) (1 / 10)"

definition cfg_material :: "config \<Rightarrow> material_props" where
  "cfg_material c = get_or (material c) empty_material"

definition cfg_thermal_conductivity :: "config \<Rightarrow> real" where
  "cfg_thermal_conductivity c = get_or (thermal_conductivity (cfg_material c)) (1 / 2)"

definition cfg_specific_heat :: "config \<Rightarrow> real" where
  "cfg_specific_heat c = get_or (specific_heat (cfg_material c)) 2000"

definition cfg_density :: "config \<Rightarrow> real" where
  "cfg_density c = get_or (density (cfg_material c)) 1"

definition cfg_ambient_temp :: "config \<Rightarrow> real" where
  "cfg_ambient_temp c = get_or (ambient_temperature c) 25"

definition cfg_convection_coeff :: "config \<Rightarrow> real" where
  "cfg_convection_coeff c = get_or (convection_coefficient c) 10"

definition cfg_extrusion_temp :: "config \<Rightarrow> real" where
  "cfg_extrusion_temp c = get_or (extrusion_temperature c) 200"

definition cfg_cooling_rate_threshold :: "config \<Rightarrow> real" where
  "cfg_cooling_rate_threshold c = get_or (cooling_rate_threshold c) 5"

definition cfg_max_temp_threshold :: "config \<Rightarrow> real" where
  "cfg_max_temp_threshold c = get_or (max_temp_threshold c) 250"

subsection \<open>The simulator object\<close>

record sample =
  time :: real
  max_temp :: real
  min_temp :: real
  avg_temp :: real

record sim =
  config :: config
  grid :: "ndarray option"
  temperature :: "ndarray option"
  clock :: real
  history :: "sample list"

definition ThermalSimulator :: "config \<Rightarrow> sim" where
  \<comment> \<open>\<^verbatim>\<open>__init__\<close>; the field \<^verbatim>\<open>self.time\<close> is \<open>clock\<close>\<close>
  "ThermalSimulator c =
     \<lparr>config = c, grid = None, temperature = None, clock = 0, history = []\<rparr>"

subsection \<open>\<^verbatim>\<open>initialize_grid\<close>\<close>

definition py_int :: "real \<Rightarrow> int" where
  \<comment> \<open>\<^verbatim>\<open>int(x)\<close> truncates towards zero\<close>
  "py_int x = (if 0 \<le> x then \<lfloor>x\<rfloor> else \<lceil>x\<rceil>)"

definition negative_dimensions :: string where
  "negative_dimensions = ''negative dimensions are not allowed''"

definition initialize_grid :: "sim \<Rightarrow> real \<times> real \<times> real \<Rightarrow> real \<Rightarrow> (error \<times> sim) + sim" where
  "initialize_grid s dimensions resolution =
     (case dimensions of (dx, dy, dz) \<Rightarrow>
      if resolution = 0 then Inl (ZeroDivisionError, s)
      else
        let nx = py_int (dx / resolution) + 1;
            ny = py_int (dy / resolution) + 1;
            nz = py_int (dz / resolution) + 1;
            ambient_temp = cfg_ambient_temp (config s)
        in if nx < 0 \<or> ny < 0 \<or> nz < 0 then Inl (ValueError negative_dimensions, s)
           else Inr (s\<lparr>temperature := Some (np_full (nx, ny, nz) ambient_temp),
                       grid := Some (np_full (nx, ny, nz) 0)\<rparr>))"

subsection \<open>\<^verbatim>\<open>add_layer\<close>\<close>

text \<open>
  The layer data is a dictionary that the method never reads. It is modelled as the set of
  \<open>(x, y)\<close> positions the caller marks as occupied.
\<close>

type_synonym layer_data = "(int \<times> int) set"

definition not_initialized :: string where
  "not_initialized = ''Grid not initialized''"

definition in_circle :: "int \<Rightarrow> int \<Rightarrow> int \<Rightarrow> int \<Rightarrow> int \<Rightarrow> bool" where
  \<comment> \<open>\<^verbatim>\<open>np.sqrt((i - center_x)**2 + (j - center_y)**2) <= radius\<close>\<close>
  "in_circle center_x center_y radius i j =
     (sqrt (real_of_int ((i - center_x)\<^sup>2 + (j - center_y)\<^sup>2)) \<le> real_of_int radius)"

definition add_layer_cell :: "int \<Rightarrow> int \<Rightarrow> int \<Rightarrow> int \<Rightarrow> int \<times> int \<Rightarrow> sim \<Rightarrow> (error \<times> sim) + sim" where
  \<comment> \<open>the body of the two loops, at one \<open>(i, j)\<close>\<close>
  "add_layer_cell center_x center_y radius z_level ij s =
     (case ij of (i, j) \<Rightarrow>
      if in_circle center_x center_y radius i j then
        (case grid s of None \<Rightarrow> Inl (TypeError, s) | Some g \<Rightarrow>
         case np_set g (i, j, z_level) 1 of Inl e \<Rightarrow> Inl (e, s) | Inr g' \<Rightarrow>
           let s1 = s\<lparr>grid := Some g'\<rparr>;
               extrusion_temp = cfg_extrusion_temp (config s1)
           in (case temperature s1 of None \<Rightarrow> Inl (TypeError, s1) | Some T \<Rightarrow>
               case np_set T (i, j, z_level) extrusion_temp of Inl e \<Rightarrow> Inl (e, s1)
               | Inr T' \<Rightarrow> Inr (s1\<lparr>temperature := Some T'\<rparr>)))
      else Inr s)"

fun add_layer_loop :: "int \<Rightarrow> int \<Rightarrow> int \<Rightarrow> int \<Rightarrow> (int \<times> int) list \<Rightarrow> sim \<Rightarrow> (error \<times> sim) + sim" where
  "add_layer_loop center_x center_y radius z_level [] s = Inr s"
| "add_layer_loop center_x center_y radius z_level (ij # rest) s =
     (case add_layer_cell center_x center_y radius z_level ij s of
        Inl e \<Rightarrow> Inl e
      | Inr s' \<Rightarrow> add_layer_loop center_x center_y radius z_level rest s')"

definition add_layer :: "sim \<Rightarrow> layer_data \<Rightarrow> int \<Rightarrow> (error \<times> sim) + sim" where
  "add_layer s layer_data z_level =
     (case grid s of None \<Rightarrow> Inl (ValueError not_initialized, s)
      | Some g \<Rightarrow>
        (case shape g of (nx, ny, nz) \<Rightarrow>
           let center_x = nx div 2;
               center_y = ny div 2;
               radius = min center_x center_y - 5
           in add_layer_loop center_x center_y radius z_level
                (List.product [0..nx - 1] [0..ny - 1]) s))"

subsection \<open>\<^verbatim>\<open>simulate_step\<close>\<close>

definition laplacian :: "ndarray \<Rightarrow> index \<Rightarrow> error + real" where
  \<comment> \<open>the seven reads of the stencil; a read outside the array is an IndexError\<close>
  "laplacian T idx =
     (case idx of (i, j, k) \<Rightarrow>
      if in_bounds T (i + 1, j, k) \<and> in_bounds T (i - 1, j, k) \<and>
         in_bounds T (i, j + 1, k) \<and> in_bounds T (i, j - 1, k) \<and>
         in_bounds T (i, j, k + 1) \<and> in_bounds T (i, j, k - 1) \<and> in_bounds T (i, j, k)
      then Inr (data T (i + 1, j, k) + data T (i - 1, j, k) +
                data T (i, j + 1, k) + data T (i, j - 1, k) +
                data T (i, j, k + 1) + data T (i, j, k - 1) - 6 * data T (i, j, k))
      else Inl IndexError)"

definition directions :: "index list" where
  "directions = [(1, 0, 0), (- 1, 0, 0), (0, 1, 0), (0, - 1, 0), (0, 0, 1), (0, 0, - 1)]"

definition is_surface :: "ndarray \<Rightarrow> index \<Rightarrow> bool" where
  \<comment> \<open>the loop over the six directions, which stops at the first neighbour that is air\<close>
  "is_surface g idx =
     (case idx of (i, j, k) \<Rightarrow>
        list_ex (\<lambda>d. case d of (di, dj, dk) \<Rightarrow>
                   in_bounds g (i + di, j + dj, k + dk) \<and> data g (i + di, j + dj, k + dk) = 0)
                directions)"

definition step_cell :: "config \<Rightarrow> ndarray \<Rightarrow> ndarray \<Rightarrow> index \<Rightarrow> ndarray \<Rightarrow> error + ndarray" where
  \<comment> \<open>the body of the three loops at one interior index: \<open>T\<close> is \<^verbatim>\<open>self.temperature\<close>,
      \<open>new_temp\<close> the copy being written\<close>
  "step_cell c g T idx new_temp =
     (if data g idx > 0 then
        (case laplacian T idx of Inl e \<Rightarrow> Inl e | Inr lap \<Rightarrow>
           if cfg_density c * cfg_specific_heat c = 0 then Inl ZeroDivisionError
           else
             let alpha = cfg_thermal_conductivity c / (cfg_density c * cfg_specific_heat c);
                 new1 = np_add new_temp idx (alpha * cfg_time_step c * lap)
             in if is_surface g idx then
                  let cooling = cfg_convection_coeff c * (cfg_ambient_temp c - data T idx)
                  in Inr (np_add new1 idx
                            (cooling * cfg_time_step c / (cfg_density c * cfg_specific_heat c)))
                else Inr new1)
      else Inr new_temp)"

fun step_loop :: "config \<Rightarrow> ndarray \<Rightarrow> ndarray \<Rightarrow> index list \<Rightarrow> ndarray \<Rightarrow> error + ndarray" where
  "step_loop c g T [] new_temp = Inr new_temp"
| "step_loop c g T (idx # rest) new_temp =
     (case step_cell c g T idx new_temp of
        Inl e \<Rightarrow> Inl e
      | Inr new' \<Rightarrow> step_loop c g T rest new')"

definition interior :: "int \<times> int \<times> int \<Rightarrow> index list" where
  \<comment> \<open>\<^verbatim>\<open>range(1, nx-1)\<close>, \<^verbatim>\<open>range(1, ny-1)\<close>, \<^verbatim>\<open>range(1, nz-1)\<close>, nested in this order\<close>
  "interior sh =
     (case sh of (nx, ny, nz) \<Rightarrow>
        List.product [1..nx - 2] (List.product [1..ny - 2] [1..nz - 2]))"

definition history_sample :: "config \<Rightarrow> real \<Rightarrow> ndarray \<Rightarrow> ndarray \<Rightarrow> error + sample" where
  \<comment> \<open>the dictionary appended to \<^verbatim>\<open>self.history\<close>, its entries evaluated in order\<close>
  "history_sample c t T g =
     (case np_max T of Inl e \<Rightarrow> Inl e | Inr mx \<Rightarrow>
      case np_min T of Inl e \<Rightarrow> Inl e | Inr mn \<Rightarrow>
      case (if np_any_material g then masked_mean T g else Inr (cfg_ambient_temp c)) of
        Inl e \<Rightarrow> Inl e
      | Inr av \<Rightarrow> Inr \<lparr>time = t, max_temp = mx, min_temp = mn, avg_temp = av\<rparr>)"

definition simulate_step :: "sim \<Rightarrow> (error \<times> sim) + sim" where
  "simulate_step s =
     (case grid s of None \<Rightarrow> Inl (ValueError not_initialized, s) | Some g \<Rightarrow>
      case temperature s of None \<Rightarrow> Inl (ValueError not_initialized, s) | Some T \<Rightarrow>
      case step_loop (config s) g T (interior (shape g)) T of
        Inl e \<Rightarrow> Inl (e, s)
      | Inr new_temp \<Rightarrow>
          let s1 = s\<lparr>temperature := Some new_temp,
                     clock := clock s + cfg_time_step (config s)\<rparr>
          in if length (history s1) mod 10 = 0 then
               (case history_sample (config s1) (clock s1) new_temp g of
                  Inl e \<Rightarrow> Inl (e, s1)
                | Inr smp \<Rightarrow> Inr (s1\<lparr>history := history s1 @ [smp]\<rparr>))
             else Inr s1)"

fun run_steps :: "nat \<Rightarrow> sim \<Rightarrow> (error \<times> sim) + sim" where
  \<comment> \<open>the loop of \<^verbatim>\<open>run_simulation\<close>\<close>
  "run_steps 0 s = Inr s"
| "run_steps (Suc n) s =
     (case simulate_step s of Inl e \<Rightarrow> Inl e | Inr s' \<Rightarrow> run_steps n s')"

subsection \<open>\<^verbatim>\<open>analyze_results\<close> and \<^verbatim>\<open>run_simulation\<close>\<close>

datatype issue_type = high_cooling_rate | high_temperature

text \<open>
  An entry of \<^verbatim>\<open>potential_issues\<close>. Its \<^verbatim>\<open>message\<close>, a formatted string of the value, is
  not modelled.
\<close>

record issue =
  issue_type :: issue_type
  issue_value :: real
  issue_threshold :: real

record temperature_stats =
  final_max :: real
  final_min :: real
  final_avg :: real

record cooling_stats =
  max_cooling_rate :: real
  avg_cooling_rate :: real

record results =
  simulation_time :: real
  num_steps :: nat
  temperature_stats :: temperature_stats
  cooling_stats :: cooling_stats
  potential_issues :: "issue list"
  results_history :: "sample list"

definition no_data :: string where
  "no_data = ''No simulation data available''"

definition cooling_rates :: "sample list \<Rightarrow> real list" where
  \<comment> \<open>the loop over \<^verbatim>\<open>range(1, len(self.history))\<close>\<close>
  "cooling_rates h =
     concat (map (\<lambda>i. let time_diff = time (h ! i) - time (h ! (i - 1))
                       in if time_diff > 0
                          then [(max_temp (h ! (i - 1)) - max_temp (h ! i)) / time_diff]
                          else [])
                 [1..<length h])"

definition py_max :: "real list \<Rightarrow> real" where
  \<comment> \<open>Python's \<^verbatim>\<open>max\<close> of a list, called on non-empty lists only\<close>
  "py_max xs = fold max (tl xs) (hd xs)"

definition analyze_results :: "sim \<Rightarrow> error + results" where
  "analyze_results s =
     (case grid s of None \<Rightarrow> Inl (ValueError no_data) | Some g \<Rightarrow>
      case temperature s of None \<Rightarrow> Inl (ValueError no_data) | Some T \<Rightarrow>
        let threshold = cfg_cooling_rate_threshold (config s);
            max_threshold = cfg_max_temp_threshold (config s);
            rates = cooling_rates (history s);
            max_rate = (if rates \<noteq> [] then py_max rates else 0);
            issues1 = (if max_rate > threshold
                       then [\<lparr>issue_type = high_cooling_rate, issue_value = max_rate,
                               issue_threshold = threshold\<rparr>]
                       else [])
        in (case np_max T of Inl e \<Rightarrow> Inl e | Inr mx \<Rightarrow>
            let issues2 = issues1 @
                  (if mx > max_threshold
                   then [\<lparr>issue_type = high_temperature, issue_value = mx,
                           issue_threshold = max_threshold\<rparr>]
                   else [])
            in (case np_min T of Inl e \<Rightarrow> Inl e | Inr mn \<Rightarrow>
                case (if np_any_material g then masked_mean T g else Inr 0) of
                  Inl e \<Rightarrow> Inl e
                | Inr av \<Rightarrow>
                    Inr \<lparr>simulation_time = clock s,
                         num_steps = length (history s) * 10,
                         temperature_stats =
                           \<lparr>final_max = mx, final_min = mn, final_avg = av\<rparr>,
                         cooling_stats =
                           \<lparr>max_cooling_rate = max_rate,
                            avg_cooling_rate = (if rates \<noteq> [] then mean rates else 0)\<rparr>,
                         potential_issues = issues2,
                         results_history = history s\<rparr>)))"

definition run_simulation :: "sim \<Rightarrow> int \<Rightarrow> (error \<times> sim) + (results \<times> sim)" where
  "run_simulation s n =
     (case run_steps (nat n) s of Inl e \<Rightarrow> Inl e
      | Inr s' \<Rightarrow> (case analyze_results s' of Inl e \<Rightarrow> Inl (e, s') | Inr r \<Rightarrow> Inr (r, s')))"

section \<open>Auxiliary definitions\<close>

text \<open>
  Closed forms of what the loops compute, and concrete inputs. None of them is part of the
  program: the lemmas below relate them to the definitions above.
\<close>

definition stencil :: "ndarray \<Rightarrow> index \<Rightarrow> real" where
  \<comment> \<open>the six axis-adjacent neighbours minus six times the centre\<close>
  "stencil T idx =
     (case idx of (i, j, k) \<Rightarrow>
        data T (i + 1, j, k) + data T (i - 1, j, k) +
        data T (i, j + 1, k) + data T (i, j - 1, k) +
        data T (i, j, k + 1) + data T (i, j, k - 1) - 6 * data T (i, j, k))"

definition cell_delta :: "config \<Rightarrow> ndarray \<Rightarrow> ndarray \<Rightarrow> index \<Rightarrow> real" where
  \<comment> \<open>what one step adds to a material cell\<close>
  "cell_delta c g T idx =
     cfg_thermal_conductivity c / (cfg_density c * cfg_specific_heat c) * cfg_time_step c *
       stencil T idx +
     (if is_surface g idx
      then cfg_convection_coeff c * (cfg_ambient_temp c - data T idx) * cfg_time_step c /
           (cfg_density c * cfg_specific_heat c)
      else 0)"

definition stepped :: "config \<Rightarrow> ndarray \<Rightarrow> ndarray \<Rightarrow> index list \<Rightarrow> ndarray \<Rightarrow> ndarray" where
  "stepped c g T idxs new_temp =
     new_temp\<lparr>data := (\<lambda>x. if x \<in> set idxs \<and> data g x > 0
                            then data new_temp x + cell_delta c g T x
                            else data new_temp x)\<rparr>"

definition recorded :: "config \<Rightarrow> real \<Rightarrow> ndarray \<Rightarrow> ndarray \<Rightarrow> sample" where
  \<comment> \<open>the sample of a field \<open>T\<close> over a grid \<open>g\<close> at time \<open>t\<close>\<close>
  "recorded c t T g =
     \<lparr>time = t, max_temp = Max (set (elements T)), min_temp = Min (set (elements T)),
      avg_temp = (if material_cells g \<noteq> [] then mean (map (data T) (material_cells g))
                  else cfg_ambient_temp c)\<rparr>"

definition default_config :: config where
  \<comment> \<open>the empty dictionary: every reader takes its default\<close>
  "default_config =
     \<lparr>time_step = None, material = None, ambient_temperature = None,
      convection_coefficient = None, extrusion_temperature = None,
      cooling_rate_threshold = None, max_temp_threshold = None\<rparr>"

definition one_cell_grid :: ndarray where
  \<comment> \<open>a 3 x 3 x 3 grid whose single interior cell is material\<close>
  "one_cell_grid = \<lparr>shape = (3, 3, 3), data = (\<lambda>_. 0)((1, 1, 1) := 1)\<rparr>"

definition one_cell_temp :: ndarray where
  "one_cell_temp = \<lparr>shape = (3, 3, 3), data = (\<lambda>_. 25)((1, 1, 1) := 200)\<rparr>"

definition one_cell_sim :: "config \<Rightarrow> sim" where
  "one_cell_sim c =
     \<lparr>config = c, grid = Some one_cell_grid, temperature = Some one_cell_temp,
      clock = 0, history = []\<rparr>"

definition decimation_run :: "(error \<times> sim) + sim" where
  \<comment> \<open>a fresh simulator with the default configuration, a 10 x 10 x 10 mm domain at 1 mm,
      37 steps\<close>
  "decimation_run =
     (case initialize_grid (ThermalSimulator default_config) (10, 10, 10) 1 of
        Inl e \<Rightarrow> Inl e
      | Inr s \<Rightarrow> run_steps 37 s)"

definition painted :: "ndarray \<Rightarrow> (index \<Rightarrow> bool) \<Rightarrow> real \<Rightarrow> ndarray" where
  \<comment> \<open>the array with \<open>v\<close> at the indices that satisfy \<open>P\<close>\<close>
  "painted a P v = a\<lparr>data := (\<lambda>x. if P x then v else data a x)\<rparr>"

definition layer_cell :: "int \<times> int \<times> int \<Rightarrow> int \<Rightarrow> index \<Rightarrow> bool" where
  \<comment> \<open>the cells of level \<open>z\<close> inside the circle that \<^verbatim>\<open>add_layer\<close> draws\<close>
  "layer_cell sh z idx =
     (case sh of (nx, ny, nz) \<Rightarrow>
      case idx of (i, j, k) \<Rightarrow>
        k = z \<and> 0 \<le> i \<and> i < nx \<and> 0 \<le> j \<and> j < ny \<and>
        in_circle (nx div 2) (ny div 2) (min (nx div 2) (ny div 2) - 5) i j)"

definition ten_sim :: sim where
  \<comment> \<open>the simulator after \<^verbatim>\<open>initialize_grid((9, 9, 0), 1)\<close>: a 10 x 10 x 1 grid\<close>
  "ten_sim =
     \<lparr>config = default_config, grid = Some (np_full (10, 10, 1) 0),
      temperature = Some (np_full (10, 10, 1) 25), clock = 0, history = []\<rparr>"

definition hot_grid :: ndarray where
  \<comment> \<open>the 10 x 10 x 1 grid after one layer: the circle is the single cell \<open>(5, 5, 0)\<close>\<close>
  "hot_grid = \<lparr>shape = (10, 10, 1), data = (\<lambda>_. 0)((5, 5, 0) := 1)\<rparr>"

definition hot_temp :: ndarray where
  "hot_temp = \<lparr>shape = (10, 10, 1), data = (\<lambda>_. 25)((5, 5, 0) := 200)\<rparr>"

definition hot_sim :: sim where
  "hot_sim = ten_sim\<lparr>grid := Some hot_grid, temperature := Some hot_temp\<rparr>"

definition hot_after :: sim where
  "hot_after =
     hot_sim\<lparr>clock := 1 / 10,
             history := [\<lparr>time = 1 / 10, max_temp = 200, min_temp = 25, avg_temp = 200\<rparr>]\<rparr>"

text \<open>The cooling rates in the words of the specification: one rate for each consecutive
  pair of samples whose time delta is positive.\<close>

definition consecutive_pairs :: "sample list \<Rightarrow> (sample \<times> sample) list" where
  "consecutive_pairs h = zip h (tl h)"

definition pair_rate :: "sample \<times> sample \<Rightarrow> real" where
  "pair_rate p = (case p of (prev, next) \<Rightarrow>
     (max_temp prev - max_temp next) / (time next - time prev))"

definition spec_cooling_rates :: "sample list \<Rightarrow> real list" where
  "spec_cooling_rates h =
     map pair_rate
       (filter (\<lambda>p. case p of (prev, next) \<Rightarrow> time next - time prev > 0) (consecutive_pairs h))"

definition traced_sim :: sim where
  \<comment> \<open>a history of three samples; the last two carry the same time\<close>
  "traced_sim =
     ten_sim\<lparr>history :=
       [\<lparr>time = 1, max_temp = 200, min_temp = 25, avg_temp = 200\<rparr>,
        \<lparr>time = 2, max_temp = 190, min_temp = 25, avg_temp = 190\<rparr>,
        \<lparr>time = 2, max_temp = 150, min_temp = 25, avg_temp = 150\<rparr>]\<rparr>"

definition rate_at :: "sample list \<Rightarrow> nat \<Rightarrow> real list" where
  "rate_at h i =
     (let time_diff = time (h ! i) - time (h ! (i - 1))
      in if time_diff > 0
         then [(max_temp (h ! (i - 1)) - max_temp (h ! i)) / time_diff]
         else [])"

definition material_sum :: "ndarray \<Rightarrow> ndarray \<Rightarrow> real" where
  \<comment> \<open>the sum of the temperatures of the material cells\<close>
  "material_sum g T = sum_list (map (data T) (material_cells g))"

definition boundary_flux :: "ndarray \<Rightarrow> real" where
  \<comment> \<open>over the six faces, the temperature of each cell of the outermost layer minus that
      of the interior cell next to it\<close>
  "boundary_flux T =
     (case shape T of (nx, ny, nz) \<Rightarrow>
        sum_list (map (\<lambda>p. case p of (j, k) \<Rightarrow>
            (data T (0, j, k) - data T (1, j, k)) +
            (data T (nx - 1, j, k) - data T (nx - 2, j, k)))
          (List.product [1..ny - 2] [1..nz - 2])) +
        sum_list (map (\<lambda>p. case p of (i, k) \<Rightarrow>
            (data T (i, 0, k) - data T (i, 1, k)) +
            (data T (i, ny - 1, k) - data T (i, ny - 2, k)))
          (List.product [1..nx - 2] [1..nz - 2])) +
        sum_list (map (\<lambda>p. case p of (i, j) \<Rightarrow>
            (data T (i, j, 0) - data T (i, j, 1)) +
            (data T (i, j, nz - 1) - data T (i, j, nz - 2)))
          (List.product [1..nx - 2] [1..ny - 2])))"

definition lossless_config :: config where
  \<comment> \<open>no convection; conductivity, specific heat and density 1\<close>
  "lossless_config =
     default_config\<lparr>convection_coefficient := Some 0,
       material := Some \<lparr>thermal_conductivity = Some 1, specific_heat = Some 1,
                         density = Some 1\<rparr>\<rparr>"

section \<open>Properties\<close>

subsection \<open>Stepping before initialization\<close>

text \<open>
  C9. On a simulator whose grid was never initialized, \<^verbatim>\<open>simulate_step\<close> raises the
  ValueError "Grid not initialized", and the object (grid, temperature field, clock, history)
  is exactly as it was.
\<close>

theorem simulate_step_uninitialized:
  "grid s = None \<Longrightarrow> simulate_step s = Inl (ValueError not_initialized, s)"
  by (simp add: simulate_step_def)

theorem simulate_step_uninitialized_witness:
  "grid (ThermalSimulator default_config) = None \<and>
   simulate_step (ThermalSimulator default_config) =
     Inl (ValueError not_initialized, ThermalSimulator default_config)"
  using simulate_step_uninitialized [of "ThermalSimulator default_config"]
  by (simp add: ThermalSimulator_def)

subsection \<open>Index lists and the stepping loop\<close>

lemma set_indices:
  "set (indices (nx, ny, nz)) = {(i, j, k). 0 \<le> i \<and> i < nx \<and> 0 \<le> j \<and> j < ny \<and> 0 \<le> k \<and> k < nz}"
  by (auto simp: indices_def)

lemma distinct_indices: "distinct (indices sh)"
  by (cases sh) (simp add: indices_def distinct_product)

lemma set_interior:
  "set (interior (nx, ny, nz)) =
     {(i, j, k). 1 \<le> i \<and> i < nx - 1 \<and> 1 \<le> j \<and> j < ny - 1 \<and> 1 \<le> k \<and> k < nz - 1}"
  by (auto simp: interior_def)

lemma distinct_interior: "distinct (interior sh)"
  by (cases sh) (simp add: interior_def distinct_product)

lemma interior_subset_indices: "idx \<in> set (interior sh) \<Longrightarrow> idx \<in> set (indices sh)"
  by (cases sh) (auto simp: set_interior set_indices)

lemma laplacian_interior:
  "idx \<in> set (interior (shape T)) \<Longrightarrow> laplacian T idx = Inr (stencil T idx)"
  by (cases "shape T") (auto simp: set_interior laplacian_def stencil_def in_bounds_def)

lemma step_loop_void:
  "\<forall>idx \<in> set idxs. \<not> data g idx > 0 \<Longrightarrow> step_loop c g T idxs new_temp = Inr new_temp"
  by (induction idxs arbitrary: new_temp) (auto simp: step_cell_def)

lemma step_cell_material:
  assumes "cfg_density c * cfg_specific_heat c \<noteq> 0"
    and "laplacian T idx = Inr (stencil T idx)"
    and "data g idx > 0"
  shows "step_cell c g T idx new_temp = Inr (np_add new_temp idx (cell_delta c g T idx))"
  using assms
  by (simp add: step_cell_def cell_delta_def np_add_def Let_def algebra_simps)

lemma data_update_eqI: "(\<And>x. f x = h x) \<Longrightarrow> a\<lparr>data := f\<rparr> = a\<lparr>data := h\<rparr>"
proof -
  assume "\<And>x. f x = h x"
  then have "f = h" by (simp add: fun_eq_iff)
  then show ?thesis by simp
qed

lemma step_loop_stepped:
  assumes "cfg_density c * cfg_specific_heat c \<noteq> 0"
    and "\<forall>idx \<in> set idxs. laplacian T idx = Inr (stencil T idx)"
    and "distinct idxs"
  shows "step_loop c g T idxs new_temp = Inr (stepped c g T idxs new_temp)"
  using assms(2,3)
proof (induction idxs arbitrary: new_temp)
  case Nil
  show ?case by (simp add: stepped_def)
next
  case (Cons idx rest)
  show ?case
  proof (cases "data g idx > 0")
    case True
    have "step_cell c g T idx new_temp = Inr (np_add new_temp idx (cell_delta c g T idx))"
      using step_cell_material [OF assms(1) _ True] Cons.prems by simp
    moreover have "stepped c g T rest (np_add new_temp idx (cell_delta c g T idx)) =
                   stepped c g T (idx # rest) new_temp"
      using Cons.prems True unfolding stepped_def np_add_def
      by (simp, intro data_update_eqI) auto
    ultimately show ?thesis using Cons by simp
  next
    case False
    have "step_cell c g T idx new_temp = Inr new_temp"
      using False by (simp add: step_cell_def)
    moreover have "stepped c g T rest new_temp = stepped c g T (idx # rest) new_temp"
      using False unfolding stepped_def by (intro data_update_eqI) auto
    ultimately show ?thesis using Cons by simp
  qed
qed

lemma elements_nonempty: "elements T \<noteq> [] \<longleftrightarrow> indices (shape T) \<noteq> []"
  by (simp add: elements_def)

lemma np_max_eq: "indices (shape T) \<noteq> [] \<Longrightarrow> np_max T = Inr (Max (set (elements T)))"
  by (cases "elements T") (simp_all add: np_max_def elements_nonempty [symmetric] Max.set_eq_fold del: set_simps)

lemma np_min_eq: "indices (shape T) \<noteq> [] \<Longrightarrow> np_min T = Inr (Min (set (elements T)))"
  by (cases "elements T") (simp_all add: np_min_def elements_nonempty [symmetric] Min.set_eq_fold del: set_simps)

lemma history_sample_ok:
  "shape T = shape g \<Longrightarrow> indices (shape g) \<noteq> [] \<Longrightarrow>
   history_sample c t T g = Inr (recorded c t T g)"
  by (simp add: history_sample_def np_max_eq np_min_eq np_any_material_def masked_mean_def recorded_def)

lemma shape_stepped [simp]: "shape (stepped c g T idxs new_temp) = shape new_temp"
  by (simp add: stepped_def)

lemma simulate_step_ok:
  assumes "grid s = Some g" and "temperature s = Some T"
    and "step_loop (config s) g T (interior (shape g)) T = Inr T'"
    and "shape T' = shape g" and "indices (shape g) \<noteq> []"
  shows "simulate_step s =
           Inr (s\<lparr>temperature := Some T',
                  clock := clock s + cfg_time_step (config s),
                  history := history s @
                    (if length (history s) mod 10 = 0
                     then [recorded (config s) (clock s + cfg_time_step (config s)) T' g]
                     else [])\<rparr>)"
  using assms by (simp add: simulate_step_def Let_def history_sample_ok)

lemma is_surface_interior:
  assumes "shape g = (nx, ny, nz)"
    and "0 < i" "i < nx - 1" "0 < j" "j < ny - 1" "0 < k" "k < nz - 1"
  shows "is_surface g (i, j, k) \<longleftrightarrow>
           (data g (i + 1, j, k) = 0 \<or> data g (i - 1, j, k) = 0 \<or>
            data g (i, j + 1, k) = 0 \<or> data g (i, j - 1, k) = 0 \<or>
            data g (i, j, k + 1) = 0 \<or> data g (i, j, k - 1) = 0)"
  using assms by (simp add: is_surface_def directions_def in_bounds_def)

subsection \<open>Grids without material\<close>

lemma fold_max_const: "fold max (map (\<lambda>_. a) xs) (a::real) = a"
  by (induction xs) simp_all

lemma fold_min_const: "fold min (map (\<lambda>_. a) xs) (a::real) = a"
  by (induction xs) simp_all

lemma np_max_full: "indices sh \<noteq> [] \<Longrightarrow> np_max (np_full sh a) = Inr a"
  by (cases "indices sh") (simp_all add: np_max_def elements_def np_full_def fold_max_const)

lemma np_min_full: "indices sh \<noteq> [] \<Longrightarrow> np_min (np_full sh a) = Inr a"
  by (cases "indices sh") (simp_all add: np_min_def elements_def np_full_def fold_min_const)

lemma material_cells_void [simp]: "material_cells (np_full sh 0) = []"
  by (simp add: material_cells_def np_full_def)

lemma simulate_step_void:
  assumes "grid s = Some (np_full sh 0)" and "temperature s = Some (np_full sh a)"
    and "indices sh \<noteq> []"
  shows "simulate_step s =
           Inr (s\<lparr>clock := clock s + cfg_time_step (config s),
                  history := history s @
                    (if length (history s) mod 10 = 0
                     then [\<lparr>time = clock s + cfg_time_step (config s), max_temp = a,
                            min_temp = a, avg_temp = cfg_ambient_temp (config s)\<rparr>]
                     else [])\<rparr>)"
proof -
  have loop: "step_loop (config s) (np_full sh 0) (np_full sh a) (interior sh) (np_full sh a) =
                Inr (np_full sh a)"
    by (rule step_loop_void) (simp add: np_full_def)
  have smp: "history_sample (config s) t (np_full sh a) (np_full sh 0) =
               Inr \<lparr>time = t, max_temp = a, min_temp = a, avg_temp = cfg_ambient_temp (config s)\<rparr>" for t
    using assms(3) by (simp add: history_sample_def np_max_full np_min_full np_any_material_def)
  have sh: "shape (np_full sh 0) = sh" by (simp add: np_full_def)
  have same: "s\<lparr>temperature := Some (np_full sh a)\<rparr> = s"
    using assms(2) by simp
  show ?thesis
    using assms(1,2) loop smp same by (simp add: simulate_step_def sh Let_def)
qed

lemma simulate_step_history_length:
  "simulate_step s = Inr s' \<Longrightarrow>
   length (history s') =
     (if length (history s) mod 10 = 0 then Suc (length (history s)) else length (history s))"
  by (auto simp: simulate_step_def Let_def split: option.splits sum.splits if_splits)

lemma run_steps_history_stuck:
  "run_steps n s = Inr s' \<Longrightarrow> length (history s) = 1 \<Longrightarrow> length (history s') = 1"
proof (induction n arbitrary: s)
  case 0
  then show ?case by simp
next
  case (Suc n)
  then obtain s1 where s1: "simulate_step s = Inr s1" "run_steps n s1 = Inr s'"
    by (auto split: sum.splits)
  have "length (history s1) = 1"
    using simulate_step_history_length [OF s1(1)] Suc.prems(2) by simp
  then show ?case using Suc.IH [OF s1(2)] by simp
qed

lemma run_steps_history_one:
  assumes "run_steps (Suc n) s = Inr s'" and "history s = []"
  shows "length (history s') = 1"
proof -
  obtain s1 where s1: "simulate_step s = Inr s1" "run_steps n s1 = Inr s'"
    using assms(1) by (auto split: sum.splits)
  have "length (history s1) = 1"
    using simulate_step_history_length [OF s1(1)] assms(2) by simp
  then show ?thesis using run_steps_history_stuck [OF s1(2)] by simp
qed

lemma run_steps_void:
  assumes "grid s = Some (np_full sh 0)" and "temperature s = Some (np_full sh a)"
    and "indices sh \<noteq> []"
  shows "\<exists>s'. run_steps n s = Inr s' \<and> grid s' = grid s \<and> temperature s' = temperature s \<and>
              config s' = config s \<and>
              take (length (history s)) (history s') = history s \<and>
              list_all (\<lambda>smp. avg_temp smp = cfg_ambient_temp (config s))
                (drop (length (history s)) (history s'))"
  using assms(1,2)
proof (induction n arbitrary: s)
  case 0
  then show ?case by simp
next
  case (Suc n)
  let ?s1 = "s\<lparr>clock := clock s + cfg_time_step (config s),
                 history := history s @
                    (if length (history s) mod 10 = 0
                     then [\<lparr>time = clock s + cfg_time_step (config s), max_temp = a,
                            min_temp = a, avg_temp = cfg_ambient_temp (config s)\<rparr>]
                     else [])\<rparr>"
  have step: "simulate_step s = Inr ?s1"
    by (rule simulate_step_void [OF Suc.prems assms(3)])
  have "grid ?s1 = Some (np_full sh 0)" "temperature ?s1 = Some (np_full sh a)"
    using Suc.prems by simp_all
  from Suc.IH [OF this] obtain s' where s':
    "run_steps n ?s1 = Inr s'" "grid s' = grid ?s1" "temperature s' = temperature ?s1"
    "config s' = config ?s1"
    "take (length (history ?s1)) (history s') = history ?s1"
    "list_all (\<lambda>smp. avg_temp smp = cfg_ambient_temp (config ?s1))
                (drop (length (history ?s1)) (history s'))"
    by blast
  have run: "run_steps (Suc n) s = Inr s'"
    using step s'(1) by simp
  obtain rest where rest: "history s' = history ?s1 @ rest"
    using s'(5) by (metis append_take_drop_id)
  have rest_ok: "list_all (\<lambda>smp. avg_temp smp = cfg_ambient_temp (config s)) rest"
    using s'(6) rest by simp
  have "take (length (history s)) (history s') = history s"
    using rest by simp
  moreover have "list_all (\<lambda>smp. avg_temp smp = cfg_ambient_temp (config s))
                (drop (length (history s)) (history s'))"
    using rest rest_ok by simp
  ultimately show ?case
    using run s'(2,3,4) by simp
qed

lemma py_int_nonneg: "0 \<le> x \<Longrightarrow> 0 \<le> py_int x"
  by (simp add: py_int_def)

lemma indices_nonempty:
  assumes "0 < nx" and "0 < ny" and "0 < nz"
  shows "indices (nx, ny, nz) \<noteq> []"
proof -
  have "(0, 0, 0) \<in> set (indices (nx, ny, nz))"
    using assms by (simp add: set_indices)
  then show ?thesis by auto
qed

lemma initialize_grid_ok:
  assumes "resolution \<noteq> 0"
    and "0 \<le> py_int (dx / resolution) + 1" and "0 \<le> py_int (dy / resolution) + 1"
    and "0 \<le> py_int (dz / resolution) + 1"
  shows "initialize_grid s (dx, dy, dz) resolution =
           Inr (s\<lparr>temperature := Some (np_full (py_int (dx / resolution) + 1,
                                                 py_int (dy / resolution) + 1,
                                                 py_int (dz / resolution) + 1)
                                          (cfg_ambient_temp (config s))),
                  grid := Some (np_full (py_int (dx / resolution) + 1,
                                          py_int (dy / resolution) + 1,
                                          py_int (dz / resolution) + 1) 0)\<rparr>)"
  using assms by (simp add: initialize_grid_def Let_def)

lemma analyze_results_void:
  assumes "grid s = Some (np_full sh 0)" and "temperature s = Some (np_full sh a)"
    and "indices sh \<noteq> []"
  shows "\<exists>r. analyze_results s = Inr r \<and> final_avg (temperature_stats r) = 0 \<and>
             final_max (temperature_stats r) = a \<and> final_min (temperature_stats r) = a"
  using assms
  by (simp add: analyze_results_def Let_def np_max_full np_min_full np_any_material_def)

subsection \<open>The update of an interior material cell\<close>

text \<open>
  C2. On an initialized simulator (grid and temperature field of one shape) whose material has
  a non-zero \<open>density * specific_heat\<close>, one call of \<^verbatim>\<open>simulate_step\<close> returns normally
  and sets every interior cell that is material to
  \<open>old_T + alpha * time_step * laplacian\<close>, with \<open>alpha = thermal_conductivity /
  (density * specific_heat)\<close> and the Laplacian the six axis-adjacent neighbours minus six
  times the centre, plus \<open>convection_coefficient * (ambient_temperature - old_T) * time_step /
  (density * specific_heat)\<close> exactly when one of the six neighbours is void. Every
  temperature on the right is read from the field before the step.
\<close>

theorem simulate_step_interior_cell:
  assumes "grid s = Some g" and "temperature s = Some T" and "shape T = shape g"
    and "shape g = (nx, ny, nz)"
    and "0 < i" "i < nx - 1" "0 < j" "j < ny - 1" "0 < k" "k < nz - 1"
    and "data g (i, j, k) > 0"
    and "cfg_density (config s) * cfg_specific_heat (config s) \<noteq> 0"
  shows "\<exists>s' T'. simulate_step s = Inr s' \<and> temperature s' = Some T' \<and>
           data T' (i, j, k) =
             data T (i, j, k) +
             cfg_thermal_conductivity (config s) / (cfg_density (config s) * cfg_specific_heat (config s)) *
               cfg_time_step (config s) *
               (data T (i + 1, j, k) + data T (i - 1, j, k) +
                data T (i, j + 1, k) + data T (i, j - 1, k) +
                data T (i, j, k + 1) + data T (i, j, k - 1) - 6 * data T (i, j, k)) +
             (if data g (i + 1, j, k) = 0 \<or> data g (i - 1, j, k) = 0 \<or>
                 data g (i, j + 1, k) = 0 \<or> data g (i, j - 1, k) = 0 \<or>
                 data g (i, j, k + 1) = 0 \<or> data g (i, j, k - 1) = 0
              then cfg_convection_coeff (config s) * (cfg_ambient_temp (config s) - data T (i, j, k)) *
                   cfg_time_step (config s) / (cfg_density (config s) * cfg_specific_heat (config s))
              else 0)"
proof -
  let ?idxs = "interior (shape g)"
  let ?T' = "stepped (config s) g T ?idxs T"
  have lap: "\<forall>idx \<in> set ?idxs. laplacian T idx = Inr (stencil T idx)"
    using laplacian_interior [of _ T] assms(3) by simp
  have loop: "step_loop (config s) g T ?idxs T = Inr ?T'"
    by (rule step_loop_stepped [OF assms(12) lap distinct_interior])
  have mem: "(i, j, k) \<in> set ?idxs"
    using assms(4-10) by (simp add: set_interior)
  then have "indices (shape g) \<noteq> []"
    using interior_subset_indices [of "(i, j, k)" "shape g"] by auto
  then have step: "simulate_step s =
      Inr (s\<lparr>temperature := Some ?T',
             clock := clock s + cfg_time_step (config s),
             history := history s @
               (if length (history s) mod 10 = 0
                then [recorded (config s) (clock s + cfg_time_step (config s)) ?T' g]
                else [])\<rparr>)"
    using simulate_step_ok [OF assms(1,2) loop] assms(3) by simp
  have val: "data ?T' (i, j, k) = data T (i, j, k) + cell_delta (config s) g T (i, j, k)"
    using mem assms(11) by (simp add: stepped_def)
  show ?thesis
    unfolding step using val is_surface_interior [OF assms(4-10)]
    by (simp add: cell_delta_def stencil_def)
qed

theorem simulate_step_interior_cell_witness:
  "\<exists>s' T'. simulate_step (one_cell_sim default_config) = Inr s' \<and>
      temperature s' = Some T' \<and> data T' (1, 1, 1) = 159909 / 800"
  using simulate_step_interior_cell
    [of "one_cell_sim default_config" one_cell_grid one_cell_temp 3 3 3 1 1 1]
  by (simp add: one_cell_sim_def one_cell_grid_def one_cell_temp_def default_config_def
      cfg_density_def cfg_specific_heat_def cfg_thermal_conductivity_def cfg_time_step_def
      cfg_convection_coeff_def cfg_ambient_temp_def cfg_material_def empty_material_def
      get_or_def)

subsection \<open>The length of the history\<close>

text \<open>
  C1. The claim asks for \<open>floor (n / 10)\<close> samples after \<open>n\<close> steps, three after 37. The
  source appends a sample when \<^verbatim>\<open>len(self.history) % 10 == 0\<close>: the test is on the
  length of the history, not on the number of steps, so the first step appends a sample and
  no later step does. On a fresh simulator with the default configuration and a
  10 x 10 x 10 mm domain at 1 mm, 37 steps leave one sample.
\<close>

theorem decimation_run_length:
  "\<not> isl decimation_run \<and> length (history (projr decimation_run)) = 1 \<and> (37::nat) div 10 = 3"
proof -
  let ?s0 = "ThermalSimulator default_config"
  let ?s1 = "?s0\<lparr>temperature := Some (np_full (11, 11, 11) 25),
                    grid := Some (np_full (11, 11, 11) 0)\<rparr>"
  have init: "initialize_grid ?s0 (10, 10, 10) 1 = Inr ?s1"
    by (simp add: initialize_grid_def py_int_def Let_def ThermalSimulator_def default_config_def
        cfg_ambient_temp_def get_or_def)
  have ne: "indices (11, 11, 11) \<noteq> []"
    by (rule indices_nonempty) simp_all
  have "grid ?s1 = Some (np_full (11, 11, 11) 0)" "temperature ?s1 = Some (np_full (11, 11, 11) 25)"
    by simp_all
  from run_steps_void [OF this ne, of 37] obtain s2 where s2: "run_steps 37 ?s1 = Inr s2"
    by blast
  have "run_steps (Suc 36) ?s1 = Inr s2"
    using s2 by simp
  moreover have "history ?s1 = []"
    by (simp add: ThermalSimulator_def)
  ultimately have len: "length (history s2) = 1"
    by (rule run_steps_history_one)
  have run: "decimation_run = Inr s2"
    using init s2 by (simp add: decimation_run_def)
  show ?thesis
    unfolding run using len by simp
qed

subsection \<open>Analysis of a grid without material\<close>

text \<open>
  C10. After \<^verbatim>\<open>initialize_grid\<close> with non-negative dimensions and a positive resolution,
  and any number of steps with nothing deposited, \<^verbatim>\<open>analyze_results\<close> returns
  \<open>final_avg = 0\<close>, while \<open>final_max\<close> and \<open>final_min\<close> are the ambient temperature; the
  samples that the steps appended to the history carry the ambient temperature as their
  average.
\<close>

theorem analyze_results_void_only:
  assumes "0 \<le> dx" and "0 \<le> dy" and "0 \<le> dz" and "0 < resolution"
  shows "\<exists>s1 s2 r. initialize_grid s (dx, dy, dz) resolution = Inr s1 \<and>
           run_steps n s1 = Inr s2 \<and> analyze_results s2 = Inr r \<and>
           final_avg (temperature_stats r) = 0 \<and>
           final_max (temperature_stats r) = cfg_ambient_temp (config s) \<and>
           final_min (temperature_stats r) = cfg_ambient_temp (config s) \<and>
           list_all (\<lambda>smp. avg_temp smp = cfg_ambient_temp (config s))
             (drop (length (history s)) (history s2))"
proof -
  let ?nx = "py_int (dx / resolution) + 1"
  let ?ny = "py_int (dy / resolution) + 1"
  let ?nz = "py_int (dz / resolution) + 1"
  let ?sh = "(?nx, ?ny, ?nz)"
  let ?a = "cfg_ambient_temp (config s)"
  let ?s1 = "s\<lparr>temperature := Some (np_full ?sh ?a), grid := Some (np_full ?sh 0)\<rparr>"
  have pos: "0 < ?nx" "0 < ?ny" "0 < ?nz"
    using assms py_int_nonneg [of "dx / resolution"] py_int_nonneg [of "dy / resolution"]
      py_int_nonneg [of "dz / resolution"] by simp_all
  have init: "initialize_grid s (dx, dy, dz) resolution = Inr ?s1"
    using initialize_grid_ok [of resolution dx dy dz s] pos assms(4) by simp
  have ne: "indices ?sh \<noteq> []"
    using pos by (rule indices_nonempty)
  have g1: "grid ?s1 = Some (np_full ?sh 0)" and t1: "temperature ?s1 = Some (np_full ?sh ?a)"
    by simp_all
  from run_steps_void [OF g1 t1 ne, of n] obtain s2 where s2:
    "run_steps n ?s1 = Inr s2" "grid s2 = grid ?s1" "temperature s2 = temperature ?s1"
    "list_all (\<lambda>smp. avg_temp smp = cfg_ambient_temp (config ?s1))
       (drop (length (history ?s1)) (history s2))"
    by blast
  have "grid s2 = Some (np_full ?sh 0)" "temperature s2 = Some (np_full ?sh ?a)"
    using s2(2,3) by simp_all
  from analyze_results_void [OF this ne] obtain r where r:
    "analyze_results s2 = Inr r" "final_avg (temperature_stats r) = 0"
    "final_max (temperature_stats r) = ?a" "final_min (temperature_stats r) = ?a"
    by blast
  show ?thesis
    using init s2(1,4) r by simp
qed

theorem analyze_results_void_only_witness:
  "\<exists>s1 s2 r. initialize_grid (ThermalSimulator default_config) (10, 10, 10) 1 = Inr s1 \<and>
      run_steps 1 s1 = Inr s2 \<and> analyze_results s2 = Inr r \<and>
      final_avg (temperature_stats r) = 0 \<and>
      final_max (temperature_stats r) = 25 \<and>
      final_min (temperature_stats r) = 25 \<and>
      list_all (\<lambda>smp. avg_temp smp = 25) (history s2)"
  using analyze_results_void_only [of 10 10 10 1 "ThermalSimulator default_config" 1]
  by (simp add: ThermalSimulator_def default_config_def cfg_ambient_temp_def get_or_def)

subsection \<open>The loop of \<^verbatim>\<open>add_layer\<close>\<close>

lemma in_circle_iff:
  "in_circle cx cy r i j \<longleftrightarrow> 0 \<le> r \<and> (i - cx)\<^sup>2 + (j - cy)\<^sup>2 \<le> r\<^sup>2"
proof -
  let ?d = "(i - cx)\<^sup>2 + (j - cy)\<^sup>2"
  have d: "0 \<le> ?d" by simp
  show ?thesis
  proof (cases "0 \<le> r")
    case True
    have "sqrt (real_of_int ?d) \<le> real_of_int r \<longleftrightarrow> real_of_int ?d \<le> (real_of_int r)\<^sup>2"
      using True d by (metis of_int_0_le_iff real_sqrt_le_iff real_sqrt_abs abs_of_nonneg)
    also have "\<dots> \<longleftrightarrow> ?d \<le> r\<^sup>2"
      by (metis of_int_le_iff of_int_power)
    finally show ?thesis using True by (simp add: in_circle_def)
  next
    case False
    have "0 \<le> real_of_int ?d"
      using d of_int_0_le_iff by blast
    then have a: "0 \<le> sqrt (real_of_int ?d)"
      by (rule real_sqrt_ge_zero)
    have b: "real_of_int r < 0"
      using False by simp
    show ?thesis
      unfolding in_circle_def using a b False by linarith
  qed
qed

lemma norm_index_in_range: "0 \<le> i \<Longrightarrow> i < n \<Longrightarrow> norm_index n i = Some i"
  by (simp add: norm_index_def)

lemma np_set_ok:
  assumes "shape a = (nx, ny, nz)" and "0 \<le> i" "i < nx" "0 \<le> j" "j < ny"
    and "norm_index nz z = Some z'"
  shows "np_set a (i, j, z) v = Inr (a\<lparr>data := (data a)((i, j, z') := v)\<rparr>)"
  using assms by (simp add: np_set_def norm_index_in_range)

lemma np_set_bad_level:
  assumes "shape a = (nx, ny, nz)" and "norm_index nz z = None"
  shows "np_set a (i, j, z) v = Inl IndexError"
  using assms by (simp add: np_set_def split: option.splits)

lemma painted_step:
  assumes "in_circle cx cy r i j"
  shows "painted (a\<lparr>data := (data a)((i, j, z') := v)\<rparr>)
           (\<lambda>x. case x of (i', j', k') \<Rightarrow> k' = z' \<and> (i', j') \<in> set rest \<and> in_circle cx cy r i' j') v =
         painted a
           (\<lambda>x. case x of (i', j', k') \<Rightarrow> k' = z' \<and> (i', j') \<in> set ((i, j) # rest) \<and> in_circle cx cy r i' j') v"
  unfolding painted_def using assms
  by (simp, intro data_update_eqI) auto

lemma painted_skip:
  assumes "\<not> in_circle cx cy r i j"
  shows "painted a
           (\<lambda>x. case x of (i', j', k') \<Rightarrow> k' = z' \<and> (i', j') \<in> set rest \<and> in_circle cx cy r i' j') v =
         painted a
           (\<lambda>x. case x of (i', j', k') \<Rightarrow> k' = z' \<and> (i', j') \<in> set ((i, j) # rest) \<and> in_circle cx cy r i' j') v"
  unfolding painted_def using assms
  by (intro data_update_eqI) auto

lemma shape_painted [simp]: "shape (painted a P v) = shape a"
  by (simp add: painted_def)

lemma add_layer_loop_ok:
  assumes "norm_index nz z = Some z'"
    and "\<forall>ij \<in> set ijs. case ij of (i, j) \<Rightarrow> 0 \<le> i \<and> i < nx \<and> 0 \<le> j \<and> j < ny"
    and "grid s = Some g" and "temperature s = Some T"
    and "shape g = (nx, ny, nz)" and "shape T = (nx, ny, nz)"
  shows "add_layer_loop cx cy r z ijs s =
           Inr (s\<lparr>grid := Some (painted g
                     (\<lambda>x. case x of (i, j, k) \<Rightarrow> k = z' \<and> (i, j) \<in> set ijs \<and> in_circle cx cy r i j) 1),
                  temperature := Some (painted T
                     (\<lambda>x. case x of (i, j, k) \<Rightarrow> k = z' \<and> (i, j) \<in> set ijs \<and> in_circle cx cy r i j)
                     (cfg_extrusion_temp (config s)))\<rparr>)"
  using assms(2-6)
proof (induction ijs arbitrary: s g T)
  case Nil
  have "painted g (\<lambda>x. False) 1 = g" "painted T (\<lambda>x. False) (cfg_extrusion_temp (config s)) = T"
    by (simp_all add: painted_def)
  then show ?case using Nil by (simp add: case_prod_unfold)
next
  case (Cons ij rest)
  obtain i j where ij: "ij = (i, j)" by (cases ij)
  have rng: "0 \<le> i" "i < nx" "0 \<le> j" "j < ny"
    using Cons.prems(1) ij by auto
  have rest_rng: "\<forall>ij \<in> set rest. case ij of (i, j) \<Rightarrow> 0 \<le> i \<and> i < nx \<and> 0 \<le> j \<and> j < ny"
    using Cons.prems(1) by simp
  show ?case
  proof (cases "in_circle cx cy r i j")
    case True
    let ?g1 = "g\<lparr>data := (data g)((i, j, z') := 1)\<rparr>"
    let ?T1 = "T\<lparr>data := (data T)((i, j, z') := cfg_extrusion_temp (config s))\<rparr>"
    let ?s1 = "s\<lparr>grid := Some ?g1, temperature := Some ?T1\<rparr>"
    have cell: "add_layer_cell cx cy r z (i, j) s = Inr ?s1"
      using True Cons.prems(2,3)
        np_set_ok [OF Cons.prems(4) rng assms(1)] np_set_ok [OF Cons.prems(5) rng assms(1)]
      by (simp add: add_layer_cell_def Let_def)
    have "add_layer_loop cx cy r z rest ?s1 =
           Inr (?s1\<lparr>grid := Some (painted ?g1
                     (\<lambda>x. case x of (i, j, k) \<Rightarrow> k = z' \<and> (i, j) \<in> set rest \<and> in_circle cx cy r i j) 1),
                  temperature := Some (painted ?T1
                     (\<lambda>x. case x of (i, j, k) \<Rightarrow> k = z' \<and> (i, j) \<in> set rest \<and> in_circle cx cy r i j)
                     (cfg_extrusion_temp (config ?s1)))\<rparr>)"
      by (rule Cons.IH [OF rest_rng]) (simp_all add: Cons.prems)
    then show ?thesis
      using cell ij painted_step [OF True, of g z' 1 rest]
        painted_step [OF True, of T z' "cfg_extrusion_temp (config s)" rest]
      by simp
  next
    case False
    have cell: "add_layer_cell cx cy r z (i, j) s = Inr s"
      using False by (simp add: add_layer_cell_def)
    show ?thesis
      using cell ij Cons.IH [OF rest_rng Cons.prems(2-5)]
        painted_skip [OF False, of g z' rest 1]
        painted_skip [OF False, of T z' rest "cfg_extrusion_temp (config s)"]
      by simp
  qed
qed

lemma add_layer_loop_bad_level:
  assumes "norm_index nz z = None" and "grid s = Some g" and "shape g = (nx, ny, nz)"
  shows "add_layer_loop cx cy r z ijs s =
           (if list_ex (\<lambda>ij. case ij of (i, j) \<Rightarrow> in_circle cx cy r i j) ijs
            then Inl (IndexError, s) else Inr s)"
proof (induction ijs)
  case Nil
  show ?case by simp
next
  case (Cons ij rest)
  obtain i j where ij: "ij = (i, j)" by (cases ij)
  show ?case
    using Cons ij assms(2) np_set_bad_level [OF assms(3,1)]
    by (simp add: add_layer_cell_def)
qed

lemma set_product_ranges:
  "(\<forall>ij \<in> set (List.product [0..nx - 1] [0..ny - 1]).
      case ij of (i, j) \<Rightarrow> 0 \<le> i \<and> i < nx \<and> 0 \<le> j \<and> j < ny)"
  by auto

lemma layer_cell_eq:
  "layer_cell (nx, ny, nz) z' =
     (\<lambda>x. case x of (i, j, k) \<Rightarrow> k = z' \<and> (i, j) \<in> set (List.product [0..nx - 1] [0..ny - 1]) \<and>
        in_circle (nx div 2) (ny div 2) (min (nx div 2) (ny div 2) - 5) i j)"
  by (auto simp: layer_cell_def fun_eq_iff)

lemma add_layer_ok:
  assumes "grid s = Some g" and "temperature s = Some T"
    and "shape g = (nx, ny, nz)" and "shape T = (nx, ny, nz)"
    and "norm_index nz z = Some z'"
  shows "add_layer s footprint z =
           Inr (s\<lparr>grid := Some (painted g (layer_cell (nx, ny, nz) z') 1),
                  temperature := Some (painted T (layer_cell (nx, ny, nz) z')
                                         (cfg_extrusion_temp (config s)))\<rparr>)"
  unfolding layer_cell_eq
  using assms(1,3)
    add_layer_loop_ok [OF assms(5) set_product_ranges assms(1,2,3,4),
      where cx = "nx div 2" and cy = "ny div 2" and r = "min (nx div 2) (ny div 2) - 5"]
  by (simp add: add_layer_def Let_def)

lemma layer_cell_ten:
  "layer_cell (10, 10, 1) 0 (i, j, k) \<longleftrightarrow> i = 5 \<and> j = 5 \<and> k = 0"
proof -
  have "(i - 5)\<^sup>2 + (j - 5)\<^sup>2 \<le> 0 \<longleftrightarrow> i = 5 \<and> j = 5"
    by (simp add: sum_power2_le_zero_iff)
  then show ?thesis
    by (auto simp: layer_cell_def in_circle_iff)
qed

lemma norm_index_outside: "z < - nz \<or> nz \<le> z \<Longrightarrow> norm_index nz z = None"
  by (auto simp: norm_index_def)

lemma circle_nonempty_iff:
  "list_ex (\<lambda>ij. case ij of (i, j) \<Rightarrow>
              in_circle (nx div 2) (ny div 2) (min (nx div 2) (ny div 2) - 5) i j)
     (List.product [0..nx - 1] [0..ny - 1]) \<longleftrightarrow> 10 \<le> nx \<and> 10 \<le> ny"
proof
  assume "list_ex (\<lambda>ij. case ij of (i, j) \<Rightarrow>
              in_circle (nx div 2) (ny div 2) (min (nx div 2) (ny div 2) - 5) i j)
     (List.product [0..nx - 1] [0..ny - 1])"
  then have "0 \<le> min (nx div 2) (ny div 2) - 5"
    by (auto simp: list_ex_iff in_circle_iff)
  then show "10 \<le> nx \<and> 10 \<le> ny" by auto
next
  assume big: "10 \<le> nx \<and> 10 \<le> ny"
  then have "(nx div 2, ny div 2) \<in> set (List.product [0..nx - 1] [0..ny - 1])"
    by auto
  moreover have "in_circle (nx div 2) (ny div 2) (min (nx div 2) (ny div 2) - 5) (nx div 2) (ny div 2)"
    using big by (auto simp: in_circle_iff)
  ultimately show "list_ex (\<lambda>ij. case ij of (i, j) \<Rightarrow>
              in_circle (nx div 2) (ny div 2) (min (nx div 2) (ny div 2) - 5) i j)
     (List.product [0..nx - 1] [0..ny - 1])"
    unfolding list_ex_iff by blast
qed

lemma ten_sim_reachable:
  "initialize_grid (ThermalSimulator default_config) (9, 9, 0) 1 = Inr ten_sim"
  by (simp add: initialize_grid_def py_int_def Let_def ThermalSimulator_def ten_sim_def
      default_config_def cfg_ambient_temp_def get_or_def)

subsection \<open>Depositing a layer\<close>

text \<open>
  C3, as the source has it. \<^verbatim>\<open>add_layer\<close> never reads the layer data. On an initialized
  simulator and for a level \<open>z\<close> with \<open>0 \<le> z < nz\<close> it returns normally; it sets to material
  exactly the cells \<open>(i, j, z)\<close> of that level with
  \<open>sqrt ((i - nx div 2)\<^sup>2 + (j - ny div 2)\<^sup>2) \<le> min (nx div 2) (ny div 2) - 5\<close>, sets the
  temperature of each of them to the extrusion temperature, and modifies no other cell, nor
  the clock, the history or the configuration.
\<close>

theorem add_layer_circle:
  assumes "grid s = Some g" and "temperature s = Some T"
    and "shape g = (nx, ny, nz)" and "shape T = shape g"
    and "0 \<le> z" and "z < nz"
  shows "add_layer s footprint z =
           Inr (s\<lparr>grid := Some (painted g (layer_cell (shape g) z) 1),
                  temperature := Some (painted T (layer_cell (shape g) z)
                                         (cfg_extrusion_temp (config s)))\<rparr>)"
proof -
  have "norm_index nz z = Some z"
    using assms(5,6) by (rule norm_index_in_range)
  then show ?thesis
    using add_layer_ok [OF assms(1,2,3), where z = z and z' = z and footprint = footprint]
      assms(3,4) by simp
qed

theorem add_layer_circle_witness:
  "add_layer ten_sim {(0, 0)} 0 =
     Inr (ten_sim\<lparr>grid := Some (painted (np_full (10, 10, 1) 0) (layer_cell (10, 10, 1) 0) 1),
                  temperature := Some (painted (np_full (10, 10, 1) 25) (layer_cell (10, 10, 1) 0) 200)\<rparr>)"
  using add_layer_circle [of ten_sim "np_full (10, 10, 1) 0" "np_full (10, 10, 1) 25" 10 10 1 0 "{(0, 0)}"]
  by (simp add: ten_sim_def np_full_def default_config_def cfg_extrusion_temp_def get_or_def)

text \<open>
  C3, as claimed, fails: on the 10 x 10 x 1 grid with the footprint \<open>{(0, 0)}\<close> the marked
  cell \<open>(0, 0, 0)\<close> stays void, and the unmarked cell \<open>(5, 5, 0)\<close> becomes material.
\<close>

theorem add_layer_ignores_footprint:
  "\<not> isl (add_layer ten_sim {(0, 0)} 0) \<and>
   (0, 0) \<in> {(0::int, 0::int)} \<and>
   data (the (grid (projr (add_layer ten_sim {(0, 0)} 0)))) (0, 0, 0) = 0 \<and>
   (5, 5) \<notin> {(0::int, 0::int)} \<and>
   data (the (grid ten_sim)) (5, 5, 0) = 0 \<and>
   data (the (grid (projr (add_layer ten_sim {(0, 0)} 0)))) (5, 5, 0) = 1"
proof -
  have "norm_index 1 0 = Some 0"
    by (simp add: norm_index_def)
  from add_layer_ok [OF _ _ _ _ this, where s = ten_sim and g = "np_full (10, 10, 1) 0"
      and T = "np_full (10, 10, 1) 25" and nx = 10 and ny = 10 and footprint = "{(0, 0)}"]
  have "add_layer ten_sim {(0, 0)} 0 =
     Inr (ten_sim\<lparr>grid := Some (painted (np_full (10, 10, 1) 0) (layer_cell (10, 10, 1) 0) 1),
                  temperature := Some (painted (np_full (10, 10, 1) 25) (layer_cell (10, 10, 1) 0)
                     (cfg_extrusion_temp (config ten_sim)))\<rparr>)"
    by (simp add: ten_sim_def np_full_def)
  then show ?thesis
    by (simp add: painted_def layer_cell_ten ten_sim_def np_full_def)
qed

lemma add_layer_bad_level:
  assumes "grid s = Some g" and "shape g = (nx, ny, nz)" and "z < - nz \<or> nz \<le> z"
  shows "add_layer s footprint z =
           (if 10 \<le> nx \<and> 10 \<le> ny then Inl (IndexError, s) else Inr s)"
  using assms(1,2)
    add_layer_loop_bad_level [OF norm_index_outside [OF assms(3)] assms(1,2),
      where cx = "nx div 2" and cy = "ny div 2" and r = "min (nx div 2) (ny div 2) - 5"
        and ijs = "List.product [0..nx - 1] [0..ny - 1]"]
    circle_nonempty_iff [of nx ny]
  by (simp add: add_layer_def Let_def)

text \<open>
  C6, as the source has it. The source has no test of the level: the error is the IndexError
  of the first write into the grid. For a level \<open>z\<close> with \<open>z < - nz\<close> or \<open>nz \<le> z\<close>, the
  call raises IndexError with the object unchanged when the circle has a cell, which is when
  \<open>10 \<le> nx\<close> and \<open>10 \<le> ny\<close>; on a narrower grid no write is made and the call returns
  normally, again with the object unchanged.
\<close>

theorem add_layer_out_of_range:
  assumes "grid s = Some g" and "shape g = (nx, ny, nz)" and "z < - nz \<or> nz \<le> z"
  shows "add_layer s footprint z =
           (if 10 \<le> nx \<and> 10 \<le> ny then Inl (IndexError, s) else Inr s)"
  using assms by (rule add_layer_bad_level)

theorem add_layer_out_of_range_witness:
  "add_layer ten_sim {(0, 0)} 1 = Inl (IndexError, ten_sim)"
  using add_layer_out_of_range [of ten_sim "np_full (10, 10, 1) 0" 10 10 1 1 "{(0, 0)}"]
  by (simp add: ten_sim_def np_full_def)

text \<open>
  C6, as claimed, fails: the level \<open>- 1\<close> is outside \<open>[0, nz)\<close>, and on the 10 x 10 x 1 grid
  \<^verbatim>\<open>add_layer\<close> accepts it as numpy's index of the last level, returns normally and
  changes both fields at the cell \<open>(5, 5, 0)\<close>. On the 3 x 3 x 3 grid, which is too narrow for
  the circle, the level 3 raises no error.
\<close>

theorem add_layer_negative_level:
  "\<not> isl (add_layer ten_sim {} (- 1)) \<and>
   \<not> isl (add_layer (one_cell_sim default_config) {} 3) \<and>
   data (the (grid ten_sim)) (5, 5, 0) = 0 \<and>
   data (the (grid (projr (add_layer ten_sim {} (- 1))))) (5, 5, 0) = 1 \<and>
   data (the (temperature ten_sim)) (5, 5, 0) = 25 \<and>
   data (the (temperature (projr (add_layer ten_sim {} (- 1))))) (5, 5, 0) = 200"
proof -
  have "norm_index 1 (- 1) = Some 0"
    by (simp add: norm_index_def)
  from add_layer_ok [OF _ _ _ _ this, where s = ten_sim and g = "np_full (10, 10, 1) 0"
      and T = "np_full (10, 10, 1) 25" and nx = 10 and ny = 10 and footprint = "{}"]
  have "add_layer ten_sim {} (- 1) =
     Inr (ten_sim\<lparr>grid := Some (painted (np_full (10, 10, 1) 0) (layer_cell (10, 10, 1) 0) 1),
                  temperature := Some (painted (np_full (10, 10, 1) 25) (layer_cell (10, 10, 1) 0)
                     (cfg_extrusion_temp (config ten_sim)))\<rparr>)"
    by (simp add: ten_sim_def np_full_def)
  moreover have "add_layer (one_cell_sim default_config) {} 3 = Inr (one_cell_sim default_config)"
    using add_layer_bad_level [of "one_cell_sim default_config" one_cell_grid 3 3 3 3 "{}"]
    by (simp add: one_cell_sim_def one_cell_grid_def)
  ultimately show ?thesis
    by (simp add: painted_def layer_cell_ten ten_sim_def np_full_def default_config_def
        cfg_extrusion_temp_def get_or_def)
qed

subsection \<open>Initializing twice\<close>

text \<open>
  C7, as the source has it. \<^verbatim>\<open>initialize_grid\<close> does not test whether a grid exists. A
  second call with a non-zero resolution and non-negative extents
  \<open>int (d / resolution) + 1\<close> returns normally; it replaces the grid by an all-void array
  and the temperature field by an all-ambient array of the new extents, and leaves the
  clock, the history and the configuration as they are.
\<close>

theorem initialize_grid_again:
  assumes "initialize_grid s0 dimensions0 resolution0 = Inr s"
    and "resolution \<noteq> 0"
    and "0 \<le> py_int (dx / resolution) + 1" and "0 \<le> py_int (dy / resolution) + 1"
    and "0 \<le> py_int (dz / resolution) + 1"
  shows "initialize_grid s (dx, dy, dz) resolution =
           Inr (s\<lparr>temperature := Some (np_full (py_int (dx / resolution) + 1,
                                                 py_int (dy / resolution) + 1,
                                                 py_int (dz / resolution) + 1)
                                          (cfg_ambient_temp (config s))),
                  grid := Some (np_full (py_int (dx / resolution) + 1,
                                          py_int (dy / resolution) + 1,
                                          py_int (dz / resolution) + 1) 0)\<rparr>)"
  using assms(2-5) by (rule initialize_grid_ok)

theorem initialize_grid_again_witness:
  "initialize_grid ten_sim (20, 20, 20) 1 =
     Inr (ten_sim\<lparr>temperature := Some (np_full (21, 21, 21) 25),
                  grid := Some (np_full (21, 21, 21) 0)\<rparr>)"
  using initialize_grid_again [OF ten_sim_reachable, where resolution = 1 and dx = 20
      and dy = 20 and dz = 20]
  by (simp add: py_int_def ten_sim_def default_config_def cfg_ambient_temp_def get_or_def)

text \<open>
  C7, as claimed, fails: after \<^verbatim>\<open>initialize_grid((9, 9, 0), 1)\<close>, the call
  \<^verbatim>\<open>initialize_grid((20, 20, 20), 1)\<close> returns normally and the grid has a new shape.
\<close>

theorem initialize_grid_twice:
  "initialize_grid (ThermalSimulator default_config) (9, 9, 0) 1 = Inr ten_sim \<and>
   \<not> isl (initialize_grid ten_sim (20, 20, 20) 1) \<and>
   map_option shape (grid ten_sim) = Some (10, 10, 1) \<and>
   map_option shape (grid (projr (initialize_grid ten_sim (20, 20, 20) 1))) = Some (21, 21, 21)"
proof -
  have "initialize_grid ten_sim (20, 20, 20) 1 =
     Inr (ten_sim\<lparr>temperature := Some (np_full (21, 21, 21) 25),
                  grid := Some (np_full (21, 21, 21) 0)\<rparr>)"
    by (simp add: initialize_grid_def py_int_def Let_def ten_sim_def
      default_config_def cfg_ambient_temp_def get_or_def)
  then show ?thesis
    using ten_sim_reachable by (simp add: ten_sim_def np_full_def)
qed

subsection \<open>The samples of the history\<close>

lemma hot_sim_reachable: "add_layer ten_sim {} 0 = Inr hot_sim"
proof -
  have n: "norm_index 1 0 = Some 0"
    by (simp add: norm_index_def)
  have g: "painted (np_full (10, 10, 1) 0) (layer_cell (10, 10, 1) 0) 1 = hot_grid"
    by (auto simp: painted_def np_full_def hot_grid_def layer_cell_ten fun_eq_iff)
  have t: "painted (np_full (10, 10, 1) 25) (layer_cell (10, 10, 1) 0) 200 = hot_temp"
    by (auto simp: painted_def np_full_def hot_temp_def layer_cell_ten fun_eq_iff)
  have e: "cfg_extrusion_temp (config ten_sim) = 200"
    by (simp add: ten_sim_def default_config_def cfg_extrusion_temp_def get_or_def)
  from add_layer_ok [OF _ _ _ _ n, where s = ten_sim and g = "np_full (10, 10, 1) 0"
      and T = "np_full (10, 10, 1) 25" and nx = 10 and ny = 10 and footprint = "{}"]
  have "add_layer ten_sim {} 0 =
     Inr (ten_sim\<lparr>grid := Some (painted (np_full (10, 10, 1) 0) (layer_cell (10, 10, 1) 0) 1),
                  temperature := Some (painted (np_full (10, 10, 1) 25) (layer_cell (10, 10, 1) 0)
                     (cfg_extrusion_temp (config ten_sim)))\<rparr>)"
    by (simp add: ten_sim_def np_full_def)
  then show ?thesis
    by (simp add: g t e hot_sim_def)
qed

lemma filter_eq_single: "distinct xs \<Longrightarrow> x \<in> set xs \<Longrightarrow> filter (\<lambda>c. c = x) xs = [x]"
  by (induction xs) (auto simp: filter_empty_conv)

lemma material_cells_hot: "material_cells hot_grid = [(5, 5, 0)]"
proof -
  have "(5, 5, 0) \<in> set (indices (10, 10, 1))"
    by (simp add: set_indices)
  then have "filter (\<lambda>c. c = (5, 5, 0)) (indices (10, 10, 1)) = [(5, 5, 0)]"
    using distinct_indices by (rule filter_eq_single [rotated])
  then show ?thesis
    by (simp add: material_cells_def hot_grid_def)
qed

lemma history_sample_InrD:
  assumes "history_sample c t T g = Inr smp"
  shows "smp = recorded c t T g"
proof (cases "indices (shape T) = []")
  case True
  then have "np_max T = Inl (ValueError zero_size)"
    by (simp add: np_max_def elements_def)
  then show ?thesis using assms by (simp add: history_sample_def)
next
  case False
  then show ?thesis
    using assms
    by (auto simp: history_sample_def np_max_eq np_min_eq np_any_material_def masked_mean_def
        recorded_def split: if_splits)
qed

lemma interior_flat: "interior (nx, ny, 1) = []"
proof -
  have "set (interior (nx, ny, 1)) = {}"
    by (auto simp: set_interior)
  then show ?thesis by simp
qed

lemma min_hot: "Min (set (elements hot_temp)) = 25"
proof (rule Min_eqI)
  show "finite (set (elements hot_temp))" by simp
  show "25 \<le> y" if "y \<in> set (elements hot_temp)" for y
    using that by (auto simp: elements_def hot_temp_def)
  have "(0, 0, 0) \<in> set (indices (shape hot_temp))"
    by (simp add: hot_temp_def set_indices)
  then have "data hot_temp (0, 0, 0) \<in> set (elements hot_temp)"
    unfolding elements_def by (simp only: set_map) (rule imageI)
  then show "25 \<in> set (elements hot_temp)"
    by (simp add: hot_temp_def)
qed

lemma max_hot: "Max (set (elements hot_temp)) = 200"
proof (rule Max_eqI)
  show "finite (set (elements hot_temp))" by simp
  show "y \<le> 200" if "y \<in> set (elements hot_temp)" for y
    using that by (auto simp: elements_def hot_temp_def)
  have "(5, 5, 0) \<in> set (indices (shape hot_temp))"
    by (simp add: hot_temp_def set_indices)
  then have "data hot_temp (5, 5, 0) \<in> set (elements hot_temp)"
    unfolding elements_def by (simp only: set_map) (rule imageI)
  then show "200 \<in> set (elements hot_temp)"
    by (simp add: hot_temp_def)
qed

lemma material_temps_hot: "map (data hot_temp) (material_cells hot_grid) = [200]"
  by (simp add: material_cells_hot hot_temp_def)

lemma hot_step: "simulate_step hot_sim = Inr hot_after"
proof -
  have loop: "step_loop (config hot_sim) hot_grid hot_temp (interior (shape hot_grid)) hot_temp =
                Inr hot_temp"
    by (simp add: hot_grid_def interior_flat)
  have ne: "indices (shape hot_grid) \<noteq> []"
    unfolding hot_grid_def by simp (rule indices_nonempty, simp_all)
  have rec: "recorded c t hot_temp hot_grid =
               \<lparr>time = t, max_temp = 200, min_temp = 25, avg_temp = 200\<rparr>" for c t
  proof -
    have "data hot_temp (5, 5, 0) = 200"
      by (simp add: hot_temp_def)
    then show ?thesis
      by (simp add: recorded_def min_hot max_hot material_cells_hot mean_def)
  qed
  have "simulate_step hot_sim =
          Inr (hot_sim\<lparr>temperature := Some hot_temp,
                 clock := clock hot_sim + cfg_time_step (config hot_sim),
                 history := history hot_sim @
                   (if length (history hot_sim) mod 10 = 0
                    then [recorded (config hot_sim)
                            (clock hot_sim + cfg_time_step (config hot_sim)) hot_temp hot_grid]
                    else [])\<rparr>)"
    by (rule simulate_step_ok [OF _ _ loop _ ne])
      (simp_all add: hot_sim_def hot_grid_def hot_temp_def)
  then show ?thesis
    by (simp add: rec hot_after_def hot_sim_def ten_sim_def default_config_def
        cfg_time_step_def get_or_def)
qed

text \<open>
  C4, as the source has it. Each sample that \<^verbatim>\<open>simulate_step\<close> appends records the clock
  after the step, the maximum and the minimum of the whole temperature field (void cells
  included), and the average over the material cells only, which is the ambient temperature
  when no cell is material.
\<close>

theorem simulate_step_sample:
  assumes "simulate_step s = Inr s'" and "length (history s') \<noteq> length (history s)"
  shows "\<exists>g T'. grid s' = Some g \<and> temperature s' = Some T' \<and>
           history s' = history s @
             [\<lparr>time = clock s',
               max_temp = Max (set (elements T')),
               min_temp = Min (set (elements T')),
               avg_temp = (if material_cells g \<noteq> []
                           then mean (map (data T') (material_cells g))
                           else cfg_ambient_temp (config s'))\<rparr>]"
  using assms
  by (auto simp: simulate_step_def Let_def recorded_def
      split: option.splits sum.splits if_splits dest!: history_sample_InrD)

theorem simulate_step_sample_witness:
  "history hot_after =
     [\<lparr>time = 1 / 10, max_temp = Max (set (elements hot_temp)),
       min_temp = Min (set (elements hot_temp)),
       avg_temp = mean (map (data hot_temp) (material_cells hot_grid))\<rparr>]"
  using simulate_step_sample [OF hot_step]
  by (simp add: hot_after_def hot_sim_def ten_sim_def material_cells_hot)

text \<open>
  C4, as claimed, fails for the minimum: after one layer on the 10 x 10 x 1 grid the only
  material cell is at 200, and the sample of the next step records the minimum 25, the
  temperature of the void cells.
\<close>

theorem sample_min_over_all_cells:
  "\<not> isl (simulate_step hot_sim) \<and>
   grid (projr (simulate_step hot_sim)) = Some hot_grid \<and>
   temperature (projr (simulate_step hot_sim)) = Some hot_temp \<and>
   map (data hot_temp) (material_cells hot_grid) = [200] \<and>
   min_temp (last (history (projr (simulate_step hot_sim)))) = 25"
  by (simp add: hot_step material_temps_hot) (simp add: hot_after_def hot_sim_def)

subsection \<open>Cooling rates\<close>

lemma cooling_rates_short [simp]: "cooling_rates [] = []" "cooling_rates [x] = []"
  by (simp_all add: cooling_rates_def)

lemma cooling_rates_rate_at: "cooling_rates h = concat (map (rate_at h) [1..<length h])"
  by (simp only: cooling_rates_def rate_at_def [abs_def])

lemma rate_at_Suc: "0 < i \<Longrightarrow> rate_at (x # h) (Suc i) = rate_at h i"
  by (cases i) (simp_all add: rate_at_def)

lemma cooling_rates_step:
  "cooling_rates (x # y # rest) =
     (if time y - time x > 0 then [(max_temp x - max_temp y) / (time y - time x)] else []) @
     cooling_rates (y # rest)"
proof -
  have upt: "[1..<length (x # y # rest)] = 1 # map Suc [1..<length (y # rest)]"
    by (simp add: map_Suc_upt upt_conv_Cons del: upt_Suc)
  have shift: "map (rate_at (x # y # rest)) (map Suc [1..<length (y # rest)]) =
        map (rate_at (y # rest)) [1..<length (y # rest)]"
    unfolding map_map
  proof (rule map_cong [OF refl])
    fix i
    assume "i \<in> set [1..<length (y # rest)]"
    then have "0 < i" by (simp del: upt_Suc)
    then have "rate_at (x # y # rest) (Suc i) = rate_at (y # rest) i"
      by (rule rate_at_Suc)
    then show "(rate_at (x # y # rest) \<circ> Suc) i = rate_at (y # rest) i"
      by simp
  qed
  have first: "rate_at (x # y # rest) 1 =
     (if time y - time x > 0 then [(max_temp x - max_temp y) / (time y - time x)] else [])"
    by (simp add: rate_at_def)
  show ?thesis
    unfolding cooling_rates_rate_at upt list.map concat.simps shift first ..
qed

lemma cooling_rates_spec: "cooling_rates h = spec_cooling_rates h"
proof (induction h rule: induct_list012)
  case 1
  show ?case by (simp add: spec_cooling_rates_def consecutive_pairs_def)
next
  case (2 x)
  show ?case by (simp add: spec_cooling_rates_def consecutive_pairs_def)
next
  case (3 x y rest)
  then show ?case
    by (simp add: cooling_rates_step spec_cooling_rates_def consecutive_pairs_def pair_rate_def)
qed

lemma py_max_Max: "xs \<noteq> [] \<Longrightarrow> py_max xs = Max (set xs)"
  by (cases xs) (simp_all add: py_max_def Max.set_eq_fold del: set_simps)

text \<open>
  C5. On an initialized simulator with a non-empty grid, \<^verbatim>\<open>analyze_results\<close> returns a
  report whose \<open>max_cooling_rate\<close> is the maximum of the rates
  \<open>(prev.max_temp - next.max_temp) / (next.time - prev.time)\<close> of the consecutive pairs of
  samples with a positive time delta, and 0 when there is no such pair, in particular when
  the history has fewer than two samples; the report holds a \<open>high_cooling_rate\<close> issue,
  with this value and the threshold, exactly when the value exceeds
  \<open>cooling_rate_threshold\<close>.
\<close>

theorem analyze_results_cooling:
  assumes "grid s = Some g" and "temperature s = Some T" and "shape T = shape g"
    and "indices (shape g) \<noteq> []"
  shows "\<exists>r. analyze_results s = Inr r \<and>
           max_cooling_rate (cooling_stats r) =
             (if spec_cooling_rates (history s) = [] then 0
              else Max (set (spec_cooling_rates (history s)))) \<and>
           (length (history s) < 2 \<longrightarrow> max_cooling_rate (cooling_stats r) = 0) \<and>
           filter (\<lambda>i. issue_type i = high_cooling_rate) (potential_issues r) =
             (if max_cooling_rate (cooling_stats r) > cfg_cooling_rate_threshold (config s)
              then [\<lparr>issue_type = high_cooling_rate,
                      issue_value = max_cooling_rate (cooling_stats r),
                      issue_threshold = cfg_cooling_rate_threshold (config s)\<rparr>]
              else [])"
proof -
  have ne: "indices (shape T) \<noteq> []"
    using assms(3,4) by simp
  have short: "spec_cooling_rates (history s) = []" if "length (history s) < 2"
  proof (cases "history s")
    case Nil
    then show ?thesis by (simp add: spec_cooling_rates_def consecutive_pairs_def)
  next
    case (Cons x rest)
    then have "rest = []" using that by simp
    then show ?thesis using Cons by (simp add: spec_cooling_rates_def consecutive_pairs_def)
  qed
  let ?rates = "spec_cooling_rates (history s)"
  let ?m = "if ?rates = [] then 0 else Max (set ?rates)"
  have m: "(if cooling_rates (history s) \<noteq> [] then py_max (cooling_rates (history s)) else 0) = ?m"
    by (simp add: cooling_rates_spec py_max_Max)
  have "\<exists>r. analyze_results s = Inr r \<and> max_cooling_rate (cooling_stats r) = ?m \<and>
           filter (\<lambda>i. issue_type i = high_cooling_rate) (potential_issues r) =
             (if ?m > cfg_cooling_rate_threshold (config s)
              then [\<lparr>issue_type = high_cooling_rate, issue_value = ?m,
                      issue_threshold = cfg_cooling_rate_threshold (config s)\<rparr>]
              else [])"
    unfolding analyze_results_def Let_def m
    using assms(1,2,3) by (simp add: np_max_eq [OF ne] np_min_eq [OF ne] masked_mean_def)
  then obtain r where r: "analyze_results s = Inr r" "max_cooling_rate (cooling_stats r) = ?m"
    "filter (\<lambda>i. issue_type i = high_cooling_rate) (potential_issues r) =
             (if ?m > cfg_cooling_rate_threshold (config s)
              then [\<lparr>issue_type = high_cooling_rate, issue_value = ?m,
                      issue_threshold = cfg_cooling_rate_threshold (config s)\<rparr>]
              else [])"
    by blast
  have "length (history s) < 2 \<longrightarrow> max_cooling_rate (cooling_stats r) = 0"
    using short r(2) by simp
  then show ?thesis
    using r by simp
qed

theorem analyze_results_cooling_witness:
  "\<exists>r. analyze_results traced_sim = Inr r \<and>
       max_cooling_rate (cooling_stats r) = 10 \<and>
       filter (\<lambda>i. issue_type i = high_cooling_rate) (potential_issues r) =
         [\<lparr>issue_type = high_cooling_rate, issue_value = 10, issue_threshold = 5\<rparr>]"
  using analyze_results_cooling [of traced_sim "np_full (10, 10, 1) 0" "np_full (10, 10, 1) 25"]
    indices_nonempty [of 10 10 1]
  by (auto simp: traced_sim_def ten_sim_def np_full_def spec_cooling_rates_def
      consecutive_pairs_def pair_rate_def default_config_def cfg_cooling_rate_threshold_def
      get_or_def)

subsection \<open>The heat of the material cells\<close>

lemma distinct_material_cells: "distinct (material_cells g)"
  by (simp add: material_cells_def distinct_indices)

lemma material_sum_stepped:
  assumes "\<forall>c \<in> set idxs. data g c > 0" and "set idxs \<subseteq> set (indices (shape g))"
    and "distinct idxs"
  shows "material_sum g (stepped c g T idxs T) =
           material_sum g T + sum_list (map (cell_delta c g T) idxs)"
proof -
  let ?M = "set (material_cells g)"
  have sub: "set idxs \<subseteq> ?M"
    using assms(1,2) by (auto simp: material_cells_def)
  have "material_sum g (stepped c g T idxs T) =
          (\<Sum>x \<in> ?M. data (stepped c g T idxs T) x)"
    unfolding material_sum_def by (rule sum_list_distinct_conv_sum_set [OF distinct_material_cells])
  also have "\<dots> = (\<Sum>x \<in> ?M. data T x + (if x \<in> set idxs then cell_delta c g T x else 0))"
    by (rule sum.cong) (auto simp: stepped_def material_cells_def)
  also have "\<dots> = (\<Sum>x \<in> ?M. data T x) + (\<Sum>x \<in> ?M. if x \<in> set idxs then cell_delta c g T x else 0)"
    by (rule sum.distrib)
  also have "(\<Sum>x \<in> ?M. if x \<in> set idxs then cell_delta c g T x else 0) =
             (\<Sum>x \<in> ?M \<inter> set idxs. cell_delta c g T x)"
    by (rule sum.inter_restrict [symmetric]) simp
  also have "?M \<inter> set idxs = set idxs"
    using sub by auto
  also have "(\<Sum>x \<in> set idxs. cell_delta c g T x) = sum_list (map (cell_delta c g T) idxs)"
    by (rule sum_list_distinct_conv_sum_set [OF assms(3), symmetric])
  also have "(\<Sum>x \<in> ?M. data T x) = material_sum g T"
    unfolding material_sum_def
    by (rule sum_list_distinct_conv_sum_set [OF distinct_material_cells, symmetric])
  finally show ?thesis .
qed

lemma telescope:
  fixes f :: "int \<Rightarrow> real"
  assumes "1 \<le> m"
  shows "(\<Sum>i \<in> {1..m}. f (i + 1) + f (i - 1) - 2 * f i) = f (m + 1) - f m - f 1 + f 0"
  using assms
proof (induction m rule: int_ge_induct)
  case base
  show ?case by simp
next
  case (step m)
  have "{1..m + 1} = insert (m + 1) {1..m}"
    using step.hyps by auto
  then show ?case
    using step.IH by simp
qed


lemma sum_list_product:
  assumes "distinct xs" and "distinct ys"
  shows "sum_list (map f (List.product xs ys)) = (\<Sum>x \<in> set xs. \<Sum>y \<in> set ys. f (x, y))"
proof -
  have "sum_list (map f (List.product xs ys)) = sum f (set xs \<times> set ys)"
    using assms by (simp add: sum_list_distinct_conv_sum_set distinct_product)
  also have "\<dots> = (\<Sum>x \<in> set xs. \<Sum>y \<in> set ys. f (x, y))"
    by (simp add: sum.cartesian_product)
  finally show ?thesis .
qed

lemma sum_list_interior:
  "sum_list (map f (interior (nx, ny, nz))) =
     (\<Sum>i \<in> {1..nx - 2}. \<Sum>j \<in> {1..ny - 2}. \<Sum>k \<in> {1..nz - 2}. f (i, j, k))"
proof -
  have "sum_list (map f (interior (nx, ny, nz))) =
          (\<Sum>i \<in> {1..nx - 2}. \<Sum>p \<in> set (List.product [1..ny - 2] [1..nz - 2]). f (i, p))"
    unfolding interior_def by (simp add: sum_list_product distinct_product)
  also have "\<dots> = (\<Sum>i \<in> {1..nx - 2}. \<Sum>j \<in> {1..ny - 2}. \<Sum>k \<in> {1..nz - 2}. f (i, j, k))"
    by (simp add: sum.cartesian_product)
  finally show ?thesis .
qed

lemma sum_swap_outer:
  fixes g :: "int \<Rightarrow> int \<Rightarrow> int \<Rightarrow> real"
  shows "(\<Sum>i \<in> A. \<Sum>j \<in> B. \<Sum>k \<in> C. g i j k) = (\<Sum>j \<in> B. \<Sum>k \<in> C. \<Sum>i \<in> A. g i j k)"
proof -
  have "(\<Sum>i \<in> A. \<Sum>j \<in> B. \<Sum>k \<in> C. g i j k) = (\<Sum>j \<in> B. \<Sum>i \<in> A. \<Sum>k \<in> C. g i j k)"
    by (rule sum.swap)
  also have "\<dots> = (\<Sum>j \<in> B. \<Sum>k \<in> C. \<Sum>i \<in> A. g i j k)"
    by (rule sum.cong [OF refl]) (rule sum.swap)
  finally show ?thesis .
qed

lemma sum_swap_inner:
  fixes g :: "int \<Rightarrow> int \<Rightarrow> int \<Rightarrow> real"
  shows "(\<Sum>i \<in> A. \<Sum>j \<in> B. \<Sum>k \<in> C. g i j k) = (\<Sum>i \<in> A. \<Sum>k \<in> C. \<Sum>j \<in> B. g i j k)"
  by (rule sum.cong [OF refl]) (rule sum.swap)

lemma stencil_sum:
  assumes "shape T = (nx, ny, nz)" and "3 \<le> nx" and "3 \<le> ny" and "3 \<le> nz"
  shows "sum_list (map (stencil T) (interior (shape T))) = boundary_flux T"
proof -
  let ?A = "{1..nx - 2}" and ?B = "{1..ny - 2}" and ?C = "{1..nz - 2}"
  let ?t = "\<lambda>i j k. data T (i, j, k)"
  let ?X = "\<lambda>i j k. ?t (i + 1) j k + ?t (i - 1) j k - 2 * ?t i j k"
  let ?Y = "\<lambda>i j k. ?t i (j + 1) k + ?t i (j - 1) k - 2 * ?t i j k"
  let ?Z = "\<lambda>i j k. ?t i j (k + 1) + ?t i j (k - 1) - 2 * ?t i j k"
  have m: "1 \<le> nx - 2" "1 \<le> ny - 2" "1 \<le> nz - 2"
    using assms(2-4) by simp_all
  have split: "stencil T (i, j, k) = ?X i j k + ?Y i j k + ?Z i j k" for i j k
    by (simp add: stencil_def)
  have tx: "(\<Sum>i \<in> ?A. ?X i j k) =
              (?t 0 j k - ?t 1 j k) + (?t (nx - 1) j k - ?t (nx - 2) j k)" for j k
    using telescope [OF m(1), of "\<lambda>i. data T (i, j, k)"] by simp
  have ty: "(\<Sum>j \<in> ?B. ?Y i j k) =
              (?t i 0 k - ?t i 1 k) + (?t i (ny - 1) k - ?t i (ny - 2) k)" for i k
    using telescope [OF m(2), of "\<lambda>j. data T (i, j, k)"] by simp
  have tz: "(\<Sum>k \<in> ?C. ?Z i j k) =
              (?t i j 0 - ?t i j 1) + (?t i j (nz - 1) - ?t i j (nz - 2))" for i j
    using telescope [OF m(3), of "\<lambda>k. data T (i, j, k)"] by simp
  have "sum_list (map (stencil T) (interior (shape T))) =
          (\<Sum>i \<in> ?A. \<Sum>j \<in> ?B. \<Sum>k \<in> ?C. ?X i j k + ?Y i j k + ?Z i j k)"
    unfolding assms(1) sum_list_interior split ..
  also have "\<dots> = (\<Sum>i \<in> ?A. \<Sum>j \<in> ?B. \<Sum>k \<in> ?C. ?X i j k) +
                    (\<Sum>i \<in> ?A. \<Sum>j \<in> ?B. \<Sum>k \<in> ?C. ?Y i j k) +
                    (\<Sum>i \<in> ?A. \<Sum>j \<in> ?B. \<Sum>k \<in> ?C. ?Z i j k)"
    by (simp only: sum.distrib)
  also have "(\<Sum>i \<in> ?A. \<Sum>j \<in> ?B. \<Sum>k \<in> ?C. ?X i j k) =
             (\<Sum>j \<in> ?B. \<Sum>k \<in> ?C. \<Sum>i \<in> ?A. ?X i j k)"
    by (rule sum_swap_outer)
  also have "\<dots> = (\<Sum>j \<in> ?B. \<Sum>k \<in> ?C.
                      (?t 0 j k - ?t 1 j k) + (?t (nx - 1) j k - ?t (nx - 2) j k))"
    by (simp only: tx)
  also have "(\<Sum>i \<in> ?A. \<Sum>j \<in> ?B. \<Sum>k \<in> ?C. ?Y i j k) =
             (\<Sum>i \<in> ?A. \<Sum>k \<in> ?C. \<Sum>j \<in> ?B. ?Y i j k)"
    by (rule sum_swap_inner)
  also have "\<dots> = (\<Sum>i \<in> ?A. \<Sum>k \<in> ?C.
                      (?t i 0 k - ?t i 1 k) + (?t i (ny - 1) k - ?t i (ny - 2) k))"
    by (simp only: ty)
  also have "(\<Sum>i \<in> ?A. \<Sum>j \<in> ?B. \<Sum>k \<in> ?C. ?Z i j k) =
             (\<Sum>i \<in> ?A. \<Sum>j \<in> ?B.
                      (?t i j 0 - ?t i j 1) + (?t i j (nz - 1) - ?t i j (nz - 2)))"
    by (simp only: tz)
  finally show ?thesis
    by (simp add: boundary_flux_def assms(1) sum_list_product)
qed

lemma cell_delta_lossless:
  "cfg_convection_coeff c = 0 \<Longrightarrow>
   cell_delta c g T idx =
     cfg_thermal_conductivity c / (cfg_density c * cfg_specific_heat c) * cfg_time_step c *
       stencil T idx"
  by (simp add: cell_delta_def)

lemma simulate_step_material_sum:
  assumes "grid s = Some g" and "temperature s = Some T" and "shape T = shape g"
    and "\<forall>c \<in> set (interior (shape g)). data g c > 0"
    and "indices (shape g) \<noteq> []"
    and "cfg_convection_coeff (config s) = 0"
    and "cfg_density (config s) * cfg_specific_heat (config s) \<noteq> 0"
  shows "\<exists>s' T'. simulate_step s = Inr s' \<and> grid s' = Some g \<and> temperature s' = Some T' \<and>
           material_sum g T' =
             material_sum g T +
             cfg_thermal_conductivity (config s) /
               (cfg_density (config s) * cfg_specific_heat (config s)) *
               cfg_time_step (config s) * sum_list (map (stencil T) (interior (shape T)))"
proof -
  let ?c = "config s"
  let ?idxs = "interior (shape g)"
  let ?T' = "stepped ?c g T ?idxs T"
  let ?k = "cfg_thermal_conductivity ?c / (cfg_density ?c * cfg_specific_heat ?c) *
              cfg_time_step ?c"
  have lap: "\<forall>idx \<in> set ?idxs. laplacian T idx = Inr (stencil T idx)"
    using laplacian_interior [of _ T] assms(3) by simp
  have loop: "step_loop ?c g T ?idxs T = Inr ?T'"
    by (rule step_loop_stepped [OF assms(7) lap distinct_interior])
  have step: "simulate_step s =
      Inr (s\<lparr>temperature := Some ?T',
             clock := clock s + cfg_time_step ?c,
             history := history s @
               (if length (history s) mod 10 = 0
                then [recorded ?c (clock s + cfg_time_step ?c) ?T' g]
                else [])\<rparr>)"
    using simulate_step_ok [OF assms(1,2) loop _ assms(5)] assms(3) by simp
  have sub: "set ?idxs \<subseteq> set (indices (shape g))"
    using interior_subset_indices by blast
  have "material_sum g ?T' = material_sum g T + sum_list (map (cell_delta ?c g T) ?idxs)"
    by (rule material_sum_stepped [OF assms(4) sub distinct_interior])
  also have "map (cell_delta ?c g T) ?idxs = map (\<lambda>idx. ?k * stencil T idx) ?idxs"
    using cell_delta_lossless [OF assms(6)] by simp
  also have "sum_list (map (\<lambda>idx. ?k * stencil T idx) ?idxs) =
             ?k * sum_list (map (stencil T) ?idxs)"
    by (rule sum_list_const_mult)
  finally have "material_sum g ?T' = material_sum g T + ?k * sum_list (map (stencil T) (interior (shape T)))"
    using assms(3) by simp
  then show ?thesis
    unfolding step using assms(1) by simp
qed

lemma interior_one_cell: "interior (3, 3, 3) = [(1, 1, 1)]"
  by (simp add: interior_def)

lemma material_cells_one_cell: "material_cells one_cell_grid = [(1, 1, 1)]"
proof -
  have "(1, 1, 1) \<in> set (indices (3, 3, 3))"
    by (simp add: set_indices)
  then have "filter (\<lambda>c. c = (1, 1, 1)) (indices (3, 3, 3)) = [(1, 1, 1)]"
    using distinct_indices by (rule filter_eq_single [rotated])
  then show ?thesis
    by (simp add: material_cells_def one_cell_grid_def)
qed

lemma lossless_values:
  "cfg_convection_coeff lossless_config = 0"
  "cfg_thermal_conductivity lossless_config = 1"
  "cfg_density lossless_config = 1"
  "cfg_specific_heat lossless_config = 1"
  "cfg_time_step lossless_config = 1 / 10"
  by (simp_all add: lossless_config_def default_config_def cfg_convection_coeff_def
      cfg_thermal_conductivity_def cfg_density_def cfg_specific_heat_def cfg_time_step_def
      cfg_material_def get_or_def)

lemma boundary_flux_one_cell: "boundary_flux one_cell_temp = - 1050"
  by (simp add: boundary_flux_def one_cell_temp_def)

lemma material_sum_one_cell: "material_sum one_cell_grid T = data T (1, 1, 1)"
  by (simp add: material_sum_def material_cells_one_cell)

text \<open>
  C8, as the source has it. The loops of \<^verbatim>\<open>simulate_step\<close> leave the outermost layer of
  the grid at its old temperature, and the stencil of an interior cell next to that layer
  reads it. On an initialized grid with at least three cells on each axis, every interior
  cell material, no convection and a non-zero \<open>density * specific_heat\<close>, one step returns
  normally and changes the sum of the temperatures of the material cells by exactly
  \<open>alpha * time_step\<close> times the sum, over the six faces, of the temperature of each cell of
  the outermost layer minus the temperature of the interior cell next to it. The sum is
  conserved when this exchange with the fixed layer is zero.
\<close>

theorem simulate_step_heat_balance:
  assumes "grid s = Some g" and "temperature s = Some T" and "shape T = shape g"
    and "shape g = (nx, ny, nz)" and "3 \<le> nx" and "3 \<le> ny" and "3 \<le> nz"
    and "\<forall>c \<in> set (interior (shape g)). data g c > 0"
    and "cfg_convection_coeff (config s) = 0"
    and "cfg_density (config s) * cfg_specific_heat (config s) \<noteq> 0"
  shows "\<exists>s' T'. simulate_step s = Inr s' \<and> grid s' = Some g \<and> temperature s' = Some T' \<and>
           material_sum g T' =
             material_sum g T +
             cfg_thermal_conductivity (config s) /
               (cfg_density (config s) * cfg_specific_heat (config s)) *
               cfg_time_step (config s) * boundary_flux T"
proof -
  have ne: "indices (shape g) \<noteq> []"
    unfolding assms(4) by (rule indices_nonempty) (use assms(5-7) in simp_all)
  have shT: "shape T = (nx, ny, nz)"
    using assms(3,4) by simp
  show ?thesis
    using simulate_step_material_sum [OF assms(1,2,3,8) ne assms(9,10)]
    unfolding stencil_sum [OF shT assms(5-7)] .
qed

theorem simulate_step_heat_balance_witness:
  "\<exists>s' T'. simulate_step (one_cell_sim lossless_config) = Inr s' \<and>
      grid s' = Some one_cell_grid \<and> temperature s' = Some T' \<and>
      material_sum one_cell_grid T' = 95"
  using simulate_step_heat_balance
    [of "one_cell_sim lossless_config" one_cell_grid one_cell_temp 3 3 3]
  by (simp add: one_cell_sim_def lossless_values material_sum_one_cell interior_one_cell
      boundary_flux_one_cell)
    (simp add: one_cell_grid_def one_cell_temp_def)

text \<open>
  C8, as claimed, fails: on the 3 x 3 x 3 grid whose interior cell is material at 200, with
  the outer layer at 25, no convection and \<open>alpha * time_step = 1 / 10\<close>, the sum over the
  material cells is 200 before the step and 95 after it.
\<close>

theorem heat_not_conserved:
  "list_all (\<lambda>c. data one_cell_grid c > 0) (interior (shape one_cell_grid)) \<and>
   cfg_convection_coeff (config (one_cell_sim lossless_config)) = 0 \<and>
   \<not> isl (simulate_step (one_cell_sim lossless_config)) \<and>
   material_sum one_cell_grid one_cell_temp = 200 \<and>
   material_sum one_cell_grid
     (the (temperature (projr (simulate_step (one_cell_sim lossless_config))))) = 95"
proof -
  let ?s = "one_cell_sim lossless_config"
  have ne: "indices (shape one_cell_grid) \<noteq> []"
    unfolding one_cell_grid_def by simp (rule indices_nonempty, simp_all)
  have occ: "\<forall>c \<in> set (interior (shape one_cell_grid)). data one_cell_grid c > 0"
    by (simp add: one_cell_grid_def interior_one_cell)
  have "\<exists>s' T'. simulate_step ?s = Inr s' \<and> grid s' = Some one_cell_grid \<and>
          temperature s' = Some T' \<and>
          material_sum one_cell_grid T' =
             material_sum one_cell_grid one_cell_temp +
             cfg_thermal_conductivity (config ?s) /
               (cfg_density (config ?s) * cfg_specific_heat (config ?s)) *
               cfg_time_step (config ?s) *
               sum_list (map (stencil one_cell_temp) (interior (shape one_cell_temp)))"
    by (rule simulate_step_material_sum [OF _ _ _ occ ne])
      (simp_all add: one_cell_sim_def lossless_values one_cell_grid_def one_cell_temp_def)
  then obtain s' T' where s': "simulate_step ?s = Inr s'" "temperature s' = Some T'"
    "material_sum one_cell_grid T' =
       material_sum one_cell_grid one_cell_temp +
       cfg_thermal_conductivity (config ?s) /
         (cfg_density (config ?s) * cfg_specific_heat (config ?s)) *
         cfg_time_step (config ?s) *
         sum_list (map (stencil one_cell_temp) (interior (shape one_cell_temp)))"
    by blast
  have before: "material_sum one_cell_grid one_cell_temp = 200"
    by (simp add: material_sum_one_cell one_cell_temp_def)
  have "sum_list (map (stencil one_cell_temp) (interior (shape one_cell_temp))) = - 1050"
    by (simp add: one_cell_temp_def interior_one_cell stencil_def)
  then have after: "material_sum one_cell_grid T' = 95"
    using s'(3) before by (simp add: one_cell_sim_def lossless_values)
  have "list_all (\<lambda>c. data one_cell_grid c > 0) (interior (shape one_cell_grid))"
    using occ by (simp add: list_all_iff)
  then show ?thesis
    using s'(1,2) before after by (simp add: one_cell_sim_def lossless_values)
qed

end
